theory Spec2Isabelle
  imports
    Main
    "HOL-Library.AList"
    "HOL-Library.Char_ord"
    "HOL-Library.List_Lexorder"
    "HOL-Library.Product_Lexorder"
    "HOL-Library.Multiset"
begin

section \<open>Python values, dictionaries and exceptions\<close>

text \<open>
  The script \<^verbatim>\<open>convert_scion_topology.py\<close> works on the values that
  \<^verbatim>\<open>json.load\<close> and \<^verbatim>\<open>toml.load\<close> return: nested dictionaries, lists,
  strings, numbers, booleans and \<^verbatim>\<open>None\<close>. A dictionary keeps its insertion order,
  which the script relies on, so it is an association list here; assigning to a key
  that exists replaces the value in place, assigning to a new key appends
  (\<open>AList.update\<close>). Numbers are never inspected by the script (every operation it
  applies to one raises), so one constructor with an integer payload stands for them.
  Strings are lists of 8-bit characters read as code points below 256.
\<close>

datatype pyval =
    PNone
  | PBool bool
  | PNum int
  | PStr string
  | PList "pyval list"
  | PDict "(string \<times> pyval) list"

datatype error = TypeError | KeyError | IndexError | AttributeError

definition ebind :: "error + 'a \<Rightarrow> ('a \<Rightarrow> error + 'b) \<Rightarrow> error + 'b" where
  "ebind m f = (case m of Inl e \<Rightarrow> Inl e | Inr x \<Rightarrow> f x)"

fun starts_with :: "string \<Rightarrow> string \<Rightarrow> bool" where
  "starts_with [] s = True"
| "starts_with (p # ps) [] = False"
| "starts_with (p # ps) (c # cs) = (p = c \<and> starts_with ps cs)"

fun contains_sub :: "string \<Rightarrow> string \<Rightarrow> bool" where
  "contains_sub p [] = (p = [])"
| "contains_sub p (c # cs) = (starts_with p (c # cs) \<or> contains_sub p cs)"

text \<open>
  \<^verbatim>\<open>key in v\<close>: key membership for a dictionary, substring test for a string,
  element test for a list, \<^verbatim>\<open>TypeError\<close> for anything else.
\<close>

fun py_in :: "string \<Rightarrow> pyval \<Rightarrow> error + bool" where
  "py_in k (PDict d) = Inr (map_of d k \<noteq> None)"
| "py_in k (PStr s) = Inr (contains_sub k s)"
| "py_in k (PList xs) = Inr (PStr k \<in> set xs)"
| "py_in k v = Inl TypeError"

text \<open>\<^verbatim>\<open>v[key]\<close> with a string key: only a dictionary can be subscripted with one.\<close>

fun py_getitem :: "pyval \<Rightarrow> string \<Rightarrow> error + pyval" where
  "py_getitem (PDict d) k = (case map_of d k of Some v \<Rightarrow> Inr v | None \<Rightarrow> Inl KeyError)"
| "py_getitem v k = Inl TypeError"

text \<open>\<^verbatim>\<open>v[key] = x\<close>; the container is returned updated.\<close>

fun py_setitem :: "pyval \<Rightarrow> string \<Rightarrow> pyval \<Rightarrow> error + pyval" where
  "py_setitem (PDict d) k x = Inr (PDict (AList.update k x d))"
| "py_setitem v k x = Inl TypeError"

text \<open>\<^verbatim>\<open>del v[key]\<close>.\<close>

fun py_delitem :: "pyval \<Rightarrow> string \<Rightarrow> error + pyval" where
  "py_delitem (PDict d) k =
     (if map_of d k \<noteq> None then Inr (PDict (AList.delete k d)) else Inl KeyError)"
| "py_delitem v k = Inl TypeError"

text \<open>\<^verbatim>\<open>v.items()\<close>: only a dictionary has the method.\<close>

fun py_items :: "pyval \<Rightarrow> error + (string \<times> pyval) list" where
  "py_items (PDict d) = Inr d"
| "py_items v = Inl AttributeError"

section \<open>Strings: splitting, decimal numbers, the two regular expressions\<close>

text \<open>\<^verbatim>\<open>s.split(sep)\<close> for a one-character separator; the result is never empty.\<close>

fun split_on :: "char \<Rightarrow> string \<Rightarrow> string list" where
  "split_on c [] = [[]]"
| "split_on c (x # xs) =
     (if x = c then [] # split_on c xs
      else (case split_on c xs of [] \<Rightarrow> [[x]] | p # ps \<Rightarrow> (x # p) # ps))"

text \<open>
  \<^verbatim>\<open>v.split(':')[1]\<close>, the expression the script uses to take the port of an
  address: \<^verbatim>\<open>AttributeError\<close> when \<open>v\<close> is no string, \<^verbatim>\<open>IndexError\<close> when
  the string has no colon.
\<close>

fun py_split_colon_1 :: "pyval \<Rightarrow> error + string" where
  "py_split_colon_1 (PStr s) =
     (case split_on CHR '':'' s of p0 # p1 # ps \<Rightarrow> Inr p1 | _ \<Rightarrow> Inl IndexError)"
| "py_split_colon_1 v = Inl AttributeError"

definition digit_chars :: string where
  "digit_chars = ''0123456789''"

definition is_digit :: "char \<Rightarrow> bool" where
  "is_digit c = (c \<in> set digit_chars)"

text \<open>The value of a decimal digit: its position in \<open>digit_chars\<close>.\<close>

definition digit_val :: "char \<Rightarrow> nat" where
  "digit_val c = length (takeWhile (\<lambda>d. d \<noteq> c) digit_chars)"

text \<open>\<^verbatim>\<open>int(ds)\<close> for a string of decimal digits (Python's integers are unbounded).\<close>

definition int_of_digits :: "string \<Rightarrow> int" where
  "int_of_digits ds = int (foldl (\<lambda>acc c. 10 * acc + digit_val c) 0 ds)"

text \<open>\<^verbatim>\<open>str(n)\<close> for an integer: decimal, no leading zeros, a minus sign if negative.\<close>

fun str_nat :: "nat \<Rightarrow> string" where
  "str_nat n =
     (if n < 10 then [digit_chars ! n]
      else str_nat (n div 10) @ [digit_chars ! (n mod 10)])"

declare str_nat.simps [simp del]

definition str_int :: "int \<Rightarrow> string" where
  "str_int i = (if i < 0 then CHR ''-'' # str_nat (nat (- i)) else str_nat (nat i))"

text \<open>
  \<^verbatim>\<open>re.search(sep + r'(\d+)$', s)\<close> followed by \<^verbatim>\<open>int(match.group(1))\<close>, for a
  one-character \<open>sep\<close>. Without \<^verbatim>\<open>re.MULTILINE\<close> the anchor \<^verbatim>\<open>$\<close> matches at the
  end of the string and just before a newline that ends the string. A match is
  therefore the separator, then a run of digits, then the end of \<open>s\<close> with one final
  newline dropped; the digits are the whole trailing digit run (the separator is no
  digit), so there is at most one match. Below code point 256 the class \<^verbatim>\<open>\d\<close> is
  the ten ASCII digits.
\<close>

definition search_suffix_number :: "char \<Rightarrow> string \<Rightarrow> int option" where
  "search_suffix_number sep s =
     (let body = (if s \<noteq> [] \<and> last s = CHR 0x0A then butlast s else s);
          ds = rev (takeWhile is_digit (rev body));
          pre = rev (dropWhile is_digit (rev body))
      in if ds \<noteq> [] \<and> pre \<noteq> [] \<and> last pre = sep then Some (int_of_digits ds) else None)"

section \<open>The functions of the script\<close>

subsection \<open>Names and numbers\<close>

text \<open>\<^verbatim>\<open>extract_as_number\<close>: the number after the last underscore of a directory name.\<close>

definition extract_as_number :: "string \<Rightarrow> int option" where
  "extract_as_number as_name = search_suffix_number CHR ''_'' as_name"

text \<open>
  \<^verbatim>\<open>extract_node_from_isd_as\<close>: the number after the last colon of a peer identifier.
  \<^verbatim>\<open>re.search\<close> raises \<^verbatim>\<open>TypeError\<close> on anything that is not a string.
\<close>

fun extract_node_from_isd_as :: "pyval \<Rightarrow> error + int option" where
  "extract_node_from_isd_as (PStr s) = Inr (search_suffix_number CHR '':'' s)"
| "extract_node_from_isd_as v = Inl TypeError"

definition node_to_ip :: "int \<Rightarrow> int" where
  "node_to_ip node_number = node_number"

text \<open>The f-string \<^verbatim>\<open>f'10.0.0.{ip}:{port}'\<close> with the port already a string.\<close>

definition addr_fmt :: "int \<Rightarrow> string \<Rightarrow> string" where
  "addr_fmt ip port = ''10.0.0.'' @ str_int ip @ '':'' @ port"

text \<open>
  \<^verbatim>\<open>build_as_to_node_mapping\<close>. The directory listing \<^verbatim>\<open>source_base.iterdir()\<close> is
  the input: a list, in the order the file system gives, of each entry's name and
  whether it is a directory. Python sorts the pairs \<open>(as_num, name)\<close> as tuples,
  numbers first and names by code point second. The result is the dictionary
  \<open>as_to_node\<close> in its insertion order.
\<close>

definition build_as_to_node_mapping :: "(string \<times> bool) list \<Rightarrow> (string \<times> string) list" where
  "build_as_to_node_mapping entries =
     (let as_dirs = filter (\<lambda>d. snd d \<and> starts_with ''AS'' (fst d)) entries;
          as_dirs_with_numbers =
            concat (map (\<lambda>d. case extract_as_number (fst d) of
                               Some as_num \<Rightarrow> [(as_num, fst d)] | None \<Rightarrow> []) as_dirs)
      in foldl (\<lambda>as_to_node (as_num, as_name).
                  AList.update as_name (''as_'' @ str_int as_num) as_to_node)
           [] (sort as_dirs_with_numbers))"

subsection \<open>The service configuration files\<close>

text \<open>
  Each of the three functions loads a TOML file, edits the loaded dictionary and dumps
  it to the same path. Parsing and printing belong to the \<^verbatim>\<open>toml\<close> library; the
  models take the loaded value and return the value that is dumped.
\<close>

text \<open>\<^verbatim>\<open>if sec in config: del config[sec]\<close>\<close>

definition del_section :: "string \<Rightarrow> pyval \<Rightarrow> error + pyval" where
  "del_section sec config =
     ebind (py_in sec config) (\<lambda>present.
       if present then py_delitem config sec else Inr config)"

text \<open>\<^verbatim>\<open>config[sec][key] = v\<close>\<close>

definition set_field :: "string \<Rightarrow> string \<Rightarrow> pyval \<Rightarrow> pyval \<Rightarrow> error + pyval" where
  "set_field sec key v config =
     ebind (py_getitem config sec) (\<lambda>table.
     ebind (py_setitem table key v) (\<lambda>table'.
       py_setitem config sec table'))"

text \<open>\<^verbatim>\<open>if sec in config: config[sec][key] = v\<close>\<close>

definition set_in_section :: "string \<Rightarrow> string \<Rightarrow> pyval \<Rightarrow> pyval \<Rightarrow> error + pyval" where
  "set_in_section sec key v config =
     ebind (py_in sec config) (\<lambda>present.
       if present then set_field sec key v config else Inr config)"

definition update_br_toml :: "pyval \<Rightarrow> int \<Rightarrow> error + pyval" where
  "update_br_toml config node_number =
     ebind (del_section ''metrics'' config) (\<lambda>c1.
     ebind (py_in ''general'' c1) (\<lambda>has_general.
     ebind (if has_general
            then ebind (set_field ''general'' ''config_dir'' (PStr ''/etc/scion/'') c1)
                   (set_field ''general'' ''id'' (PStr ''br''))
            else Inr c1) (\<lambda>c2.
       set_in_section ''api'' ''addr''
         (PStr (''10.0.0.'' @ str_int (node_to_ip node_number) @ '':31442'')) c2)))"

definition update_cs_toml :: "pyval \<Rightarrow> int \<Rightarrow> error + pyval" where
  "update_cs_toml config node_number =
     ebind (del_section ''metrics'' config) (\<lambda>c1.
     ebind (del_section ''tracing'' c1) (\<lambda>c2.
     ebind (set_in_section ''general'' ''config_dir'' (PStr ''/etc/scion/'') c2) (\<lambda>c3.
     ebind (set_in_section ''trust_db'' ''connection'' (PStr ''/etc/scion/trust.db'') c3) (\<lambda>c4.
     ebind (set_in_section ''beacon_db'' ''connection'' (PStr ''/etc/scion/beacon.db'') c4) (\<lambda>c5.
     ebind (set_in_section ''path_db'' ''connection'' (PStr ''/etc/scion/path.db'') c5) (\<lambda>c6.
       set_in_section ''api'' ''addr''
         (PStr (''10.0.0.'' @ str_int (node_to_ip node_number) @ '':31152'')) c6))))))"

definition update_sd_toml :: "pyval \<Rightarrow> int \<Rightarrow> error + pyval" where
  "update_sd_toml config node_number =
     ebind (del_section ''metrics'' config) (\<lambda>c1.
     ebind (del_section ''tracing'' c1) (\<lambda>c2.
     ebind (set_in_section ''general'' ''config_dir'' (PStr ''/etc/scion/'') c2) (\<lambda>c3.
     ebind (set_in_section ''trust_db'' ''connection'' (PStr ''/etc/scion/trust.db'') c3) (\<lambda>c4.
     ebind (set_in_section ''path_db'' ''connection'' (PStr ''/etc/scion/path.db'') c4) (\<lambda>c5.
     ebind (set_in_section ''sd'' ''address''
              (PStr (''10.0.0.'' @ str_int (node_to_ip node_number) @ '':30255'')) c5) (\<lambda>c6.
       set_in_section ''api'' ''addr''
         (PStr (''10.0.0.'' @ str_int (node_to_ip node_number) @ '':30955'')) c6))))))"

subsection \<open>The port allocator\<close>

record PortAllocator =
  base_port :: int
  next_port :: int
  port_assignments :: "(int \<times> int \<times> int) \<rightharpoonup> int"

definition PortAllocator_init :: "int \<Rightarrow> PortAllocator" where
  "PortAllocator_init base =
     \<lparr>base_port = base, next_port = base, port_assignments = Map.empty\<rparr>"

text \<open>\<^verbatim>\<open>PortAllocator.get_port\<close>: the port returned and the allocator afterwards.\<close>

definition get_port :: "PortAllocator \<Rightarrow> int \<Rightarrow> int \<Rightarrow> int \<Rightarrow> int \<times> PortAllocator" where
  "get_port pa node_a node_b link_index =
     (let smaller = min node_a node_b;
          larger = max node_a node_b;
          key = (smaller, larger, link_index)
      in case port_assignments pa key of
           Some port \<Rightarrow> (port, pa)
         | None \<Rightarrow>
             (next_port pa,
              pa\<lparr>port_assignments := (port_assignments pa)(key \<mapsto> next_port pa),
                 next_port := next_port pa + 1\<rparr>))"

subsection \<open>The topology descriptor\<close>

text \<open>
  The body of the two loops over \<^verbatim>\<open>topology['control_service']\<close> and
  \<^verbatim>\<open>topology['discovery_service']\<close>:
  \<^verbatim>\<open>if 'addr' in service_data: port = service_data['addr'].split(':')[1]; ...\<close>
\<close>

definition rewrite_service_addr :: "int \<Rightarrow> pyval \<Rightarrow> error + pyval" where
  "rewrite_service_addr node_number service_data =
     ebind (py_in ''addr'' service_data) (\<lambda>has_addr.
       if has_addr
       then ebind (py_getitem service_data ''addr'') (\<lambda>a.
            ebind (py_split_colon_1 a) (\<lambda>port.
              py_setitem service_data ''addr'' (PStr (addr_fmt (node_to_ip node_number) port))))
       else Inr service_data)"

fun rewrite_service_entries ::
  "int \<Rightarrow> (string \<times> pyval) list \<Rightarrow> error + (string \<times> pyval) list" where
  "rewrite_service_entries node_number [] = Inr []"
| "rewrite_service_entries node_number ((service_name, service_data) # rest) =
     ebind (rewrite_service_addr node_number service_data) (\<lambda>service_data'.
     ebind (rewrite_service_entries node_number rest) (\<lambda>rest'.
       Inr ((service_name, service_data') # rest')))"

text \<open>\<^verbatim>\<open>if table in topology: for ... in topology[table].items(): ...\<close>\<close>

definition rewrite_services :: "int \<Rightarrow> string \<Rightarrow> pyval \<Rightarrow> error + pyval" where
  "rewrite_services node_number table topology =
     ebind (py_in table topology) (\<lambda>present.
       if present
       then ebind (py_getitem topology table) (\<lambda>services.
            ebind (py_items services) (\<lambda>entries.
            ebind (rewrite_service_entries node_number entries) (\<lambda>entries'.
              py_setitem topology table (PDict entries'))))
       else Inr topology)"

text \<open>
  The first loop over the border routers: it keeps the rewritten internal address
  of the last border router that has one and collects every interface into
  \<open>all_interfaces\<close>, \<^verbatim>\<open>all_interfaces[interface_id] = interface_data\<close>.
  \<open>consolidated_internal_addr\<close> starts as \<^verbatim>\<open>None\<close>.
\<close>

definition add_interfaces ::
  "(string \<times> pyval) list \<Rightarrow> (string \<times> pyval) list \<Rightarrow> (string \<times> pyval) list" where
  "add_interfaces all_interfaces interfaces =
     foldl (\<lambda>acc (interface_id, interface_data). AList.update interface_id interface_data acc)
       all_interfaces interfaces"

fun collect_border_routers ::
  "int \<Rightarrow> (string \<times> pyval) list \<Rightarrow> (string \<times> pyval) list \<times> pyval
     \<Rightarrow> error + ((string \<times> pyval) list \<times> pyval)" where
  "collect_border_routers node_number [] st = Inr st"
| "collect_border_routers node_number ((br_name, br_data) # rest)
       (all_interfaces, consolidated_internal_addr) =
     ebind (py_in ''internal_addr'' br_data) (\<lambda>has_addr.
     ebind (if has_addr
            then ebind (py_getitem br_data ''internal_addr'') (\<lambda>a.
                 ebind (py_split_colon_1 a) (\<lambda>port.
                   Inr (PStr (addr_fmt (node_to_ip node_number) port))))
            else Inr consolidated_internal_addr) (\<lambda>addr'.
     ebind (py_in ''interfaces'' br_data) (\<lambda>has_interfaces.
     ebind (if has_interfaces
            then ebind (py_getitem br_data ''interfaces'') (\<lambda>ifs.
                 ebind (py_items ifs) (\<lambda>interfaces.
                   Inr (add_interfaces all_interfaces interfaces)))
            else Inr all_interfaces) (\<lambda>all_interfaces'.
       collect_border_routers node_number rest (all_interfaces', addr')))))"

text \<open>\<^verbatim>\<open>m.get(k, default)\<close>\<close>

definition get_default :: "('k \<rightharpoonup> 'v) \<Rightarrow> 'k \<Rightarrow> 'v \<Rightarrow> 'v" where
  "get_default m k dflt = (case m k of Some v \<Rightarrow> v | None \<Rightarrow> dflt)"

text \<open>
  Lines 293 to 302: the canonical node pair, the link index read from
  \<open>link_counters\<close> (\<^verbatim>\<open>get(node_pair, 0)\<close>), the counter stored back incremented and
  the port asked of the allocator. The result is the link index, the port, the
  counters and the allocator afterwards.
\<close>

definition assign_link ::
  "int \<Rightarrow> int \<Rightarrow> ((int \<times> int) \<rightharpoonup> int) \<Rightarrow> PortAllocator
     \<Rightarrow> int \<times> int \<times> ((int \<times> int) \<rightharpoonup> int) \<times> PortAllocator" where
  "assign_link node_number remote_node link_counters pa =
     (let node_pair = (min node_number remote_node, max node_number remote_node);
          link_index = get_default link_counters node_pair 0;
          link_counters' = link_counters(node_pair \<mapsto> link_index + 1);
          (connection_port, pa') = get_port pa node_number remote_node link_index
      in (link_index, connection_port, link_counters', pa'))"

text \<open>\<^verbatim>\<open>if key in underlay: underlay[key] = f'10.0.0.{ip}:{connection_port}'\<close>\<close>

definition set_underlay_addr :: "string \<Rightarrow> int \<Rightarrow> int \<Rightarrow> pyval \<Rightarrow> error + pyval" where
  "set_underlay_addr key ip connection_port underlay =
     ebind (py_in key underlay) (\<lambda>present.
       if present
       then py_setitem underlay key (PStr (addr_fmt ip (str_int connection_port)))
       else Inr underlay)"

text \<open>
  The body of the second loop, for one interface: the interface afterwards, the
  link counters and the allocator. \<open>underlay\<close> is the object stored in the
  interface, so what is assigned to it shows in the interface.
\<close>

definition process_interface ::
  "int \<Rightarrow> pyval \<Rightarrow> ((int \<times> int) \<rightharpoonup> int) \<times> PortAllocator
     \<Rightarrow> error + (pyval \<times> ((int \<times> int) \<rightharpoonup> int) \<times> PortAllocator)" where
  "process_interface node_number interface_data st =
     ebind (py_in ''underlay'' interface_data) (\<lambda>has_underlay.
       if has_underlay
       then ebind (py_getitem interface_data ''underlay'') (\<lambda>underlay.
            ebind (py_in ''isd_as'' interface_data) (\<lambda>has_isd_as.
            ebind (if has_isd_as
                   then ebind (py_getitem interface_data ''isd_as'') extract_node_from_isd_as
                   else Inr None) (\<lambda>remote_node.
              case remote_node of
                None \<Rightarrow> Inr (interface_data, st)
              | Some remote \<Rightarrow>
                  (case assign_link node_number remote (fst st) (snd st) of
                     (link_index, connection_port, link_counters', pa') \<Rightarrow>
                       ebind (set_underlay_addr ''local'' (node_to_ip node_number)
                                connection_port underlay) (\<lambda>u1.
                       ebind (set_underlay_addr ''remote'' (node_to_ip remote)
                                connection_port u1) (\<lambda>u2.
                       ebind (py_setitem interface_data ''underlay'' u2) (\<lambda>interface_data'.
                         Inr (interface_data', link_counters', pa'))))))))
       else Inr (interface_data, st))"

fun process_interfaces ::
  "int \<Rightarrow> (string \<times> pyval) list \<Rightarrow> ((int \<times> int) \<rightharpoonup> int) \<times> PortAllocator
     \<Rightarrow> error + ((string \<times> pyval) list \<times> ((int \<times> int) \<rightharpoonup> int) \<times> PortAllocator)" where
  "process_interfaces node_number [] st = Inr ([], st)"
| "process_interfaces node_number ((interface_id, interface_data) # rest) st =
     ebind (process_interface node_number interface_data st) (\<lambda>(interface_data', st').
     ebind (process_interfaces node_number rest st') (\<lambda>(rest', st'').
       Inr ((interface_id, interface_data') # rest', st'')))"

text \<open>\<^verbatim>\<open>if 'border_routers' in topology: ...\<close>, lines 257 to 320.\<close>

definition consolidate_border_routers ::
  "int \<Rightarrow> pyval \<Rightarrow> PortAllocator \<Rightarrow> error + (pyval \<times> PortAllocator)" where
  "consolidate_border_routers node_number topology pa =
     ebind (py_in ''border_routers'' topology) (\<lambda>present.
       if present
       then ebind (py_getitem topology ''border_routers'') (\<lambda>brs.
            ebind (py_items brs) (\<lambda>br_entries.
            ebind (collect_border_routers node_number br_entries ([], PNone))
              (\<lambda>(all_interfaces, consolidated_internal_addr).
            ebind (process_interfaces node_number all_interfaces (Map.empty, pa))
              (\<lambda>(all_interfaces', link_counters, pa').
            ebind (py_setitem topology ''border_routers''
                     (PDict [(''br'', PDict [(''internal_addr'', consolidated_internal_addr),
                                             (''interfaces'', PDict all_interfaces')])]))
              (\<lambda>topology'. Inr (topology', pa'))))))
       else Inr (topology, pa))"

text \<open>
  \<^verbatim>\<open>update_topology_json\<close>: the value that \<^verbatim>\<open>json.load\<close> returned and the shared
  allocator go in, the value that is dumped and the allocator come out. An
  exception ends the whole run, so no allocator is returned with an error.
\<close>

definition update_topology_json ::
  "pyval \<Rightarrow> int \<Rightarrow> PortAllocator \<Rightarrow> error + (pyval \<times> PortAllocator)" where
  "update_topology_json topology node_number port_allocator =
     ebind (del_section ''test_dispatcher'' topology) (\<lambda>t1.
     ebind (rewrite_services node_number ''control_service'' t1) (\<lambda>t2.
     ebind (rewrite_services node_number ''discovery_service'' t2) (\<lambda>t3.
       consolidate_border_routers node_number t3 port_allocator)))"

section \<open>Notions used in the statements\<close>

text \<open>
  \<open>main\<close> creates one allocator, \<^verbatim>\<open>PortAllocator(base_port=50000)\<close>, and hands it to
  every call of \<^verbatim>\<open>update_topology_json\<close>; nothing but \<^verbatim>\<open>get_port\<close> changes it.
  The allocator states of a run are therefore the ones reached from it by calls of
  \<^verbatim>\<open>get_port\<close>.
\<close>

definition main_allocator :: PortAllocator where
  "main_allocator = PortAllocator_init 50000"

inductive allocator_reachable :: "PortAllocator \<Rightarrow> bool" where
  start: "allocator_reachable main_allocator"
| call: "allocator_reachable pa \<Longrightarrow>
         allocator_reachable (snd (get_port pa node_a node_b link_index))"

definition allocator_inv :: "PortAllocator \<Rightarrow> bool" where
  "allocator_inv pa \<longleftrightarrow>
     base_port pa \<le> next_port pa \<and>
     inj_on (port_assignments pa) (dom (port_assignments pa)) \<and>
     ran (port_assignments pa) = {base_port pa ..< next_port pa}"

text \<open>
  The peer of an interface that takes part in the port assignment: the second loop
  reaches lines 293 to 312 exactly for an interface that has an \<^verbatim>\<open>underlay\<close> key
  and an \<^verbatim>\<open>isd_as\<close> string from which \<^verbatim>\<open>extract_node_from_isd_as\<close> reads a number
  (\<open>process_interface_Inr\<close> below).
\<close>

definition link_peer :: "pyval \<Rightarrow> int option" where
  "link_peer interface_data =
     (case interface_data of
        PDict d \<Rightarrow>
          (if map_of d ''underlay'' \<noteq> None
           then (case map_of d ''isd_as'' of
                   Some (PStr s) \<Rightarrow> search_suffix_number CHR '':'' s
                 | _ \<Rightarrow> None)
           else None)
      | _ \<Rightarrow> None)"

text \<open>How many of the first \<open>j\<close> interfaces of a list are links to the peer \<open>r\<close>.\<close>

definition links_before :: "int \<Rightarrow> nat \<Rightarrow> (string \<times> pyval) list \<Rightarrow> nat" where
  "links_before r j ifs = length (filter (\<lambda>x. link_peer (snd x) = Some r) (take j ifs))"

text \<open>
  An interface before and after lines 304 to 312 with the port \<open>p\<close>: the two
  conditional assignments to its underlay, in the code's order.
\<close>

definition rewritten_with :: "int \<Rightarrow> int \<Rightarrow> int \<Rightarrow> pyval \<Rightarrow> pyval \<Rightarrow> bool" where
  "rewritten_with n r p idata idata' \<longleftrightarrow>
     (\<exists>d u u1 u2. idata = PDict d \<and> map_of d ''underlay'' = Some u \<and>
        set_underlay_addr ''local'' n p u = Inr u1 \<and>
        set_underlay_addr ''remote'' r p u1 = Inr u2 \<and>
        idata' = PDict (AList.update ''underlay'' u2 d))"

definition border_router_entries :: "pyval \<Rightarrow> (string \<times> pyval) list" where
  "border_router_entries topology =
     (case topology of
        PDict t \<Rightarrow> (case map_of t ''border_routers'' of Some (PDict brs) \<Rightarrow> brs | _ \<Rightarrow> [])
      | _ \<Rightarrow> [])"

definition br_interfaces :: "pyval \<Rightarrow> (string \<times> pyval) list" where
  "br_interfaces br_data =
     (case br_data of
        PDict b \<Rightarrow> (case map_of b ''interfaces'' of Some (PDict ifs) \<Rightarrow> ifs | _ \<Rightarrow> [])
      | _ \<Rightarrow> [])"

definition br_internal_addr :: "pyval \<Rightarrow> pyval option" where
  "br_internal_addr br_data = (case br_data of PDict b \<Rightarrow> map_of b ''internal_addr'' | _ \<Rightarrow> None)"

definition declared_interfaces :: "pyval \<Rightarrow> (string \<times> pyval) list" where
  "declared_interfaces topology =
     foldl add_interfaces [] (map (\<lambda>br. br_interfaces (snd br)) (border_router_entries topology))"

definition output_interfaces :: "pyval \<Rightarrow> (string \<times> pyval) list" where
  "output_interfaces topology =
     (case border_router_entries topology of [br] \<Rightarrow> br_interfaces (snd br) | _ \<Rightarrow> [])"

definition underlay_addr :: "string \<Rightarrow> pyval \<Rightarrow> pyval option" where
  "underlay_addr key interface_data =
     (case interface_data of
        PDict d \<Rightarrow> (case map_of d ''underlay'' of Some (PDict u) \<Rightarrow> map_of u key | _ \<Rightarrow> None)
      | _ \<Rightarrow> None)"

subsection \<open>Example inputs\<close>

text \<open>
  Two descriptors in the shape of the generated \<^verbatim>\<open>topology.json\<close> files, for the
  nodes 110 and 111, each with one border router and one interface whose peer is the
  other node; and the same after \<^verbatim>\<open>update_topology_json\<close>.
\<close>

definition ex_topology_110 :: pyval where
  "ex_topology_110 = PDict
     [(''control_service'', PDict [(''cs1'', PDict [(''addr'', PStr ''127.0.0.18:31000'')])]),
      (''border_routers'', PDict
         [(''br1'', PDict
            [(''internal_addr'', PStr ''127.0.0.9:31002''),
             (''interfaces'', PDict
                [(''1'', PDict
                   [(''isd_as'', PStr ''1-ff00:0:111''),
                    (''underlay'', PDict [(''local'', PStr ''127.0.0.4:50000''),
                                          (''remote'', PStr ''127.0.0.5:50000'')])])])])])]"

definition ex_topology_111 :: pyval where
  "ex_topology_111 = PDict
     [(''control_service'', PDict [(''cs1'', PDict [(''addr'', PStr ''127.0.0.26:31006'')])]),
      (''border_routers'', PDict
         [(''br1'', PDict
            [(''internal_addr'', PStr ''127.0.0.25:31008''),
             (''interfaces'', PDict
                [(''41'', PDict
                   [(''isd_as'', PStr ''1-ff00:0:110''),
                    (''underlay'', PDict [(''local'', PStr ''127.0.0.5:50000''),
                                          (''remote'', PStr ''127.0.0.4:50000'')])])])])])]"

definition ex_output_110 :: pyval where
  "ex_output_110 = PDict
     [(''control_service'', PDict [(''cs1'', PDict [(''addr'', PStr ''10.0.0.110:31000'')])]),
      (''border_routers'', PDict
         [(''br'', PDict
            [(''internal_addr'', PStr ''10.0.0.110:31002''),
             (''interfaces'', PDict
                [(''1'', PDict
                   [(''isd_as'', PStr ''1-ff00:0:111''),
                    (''underlay'', PDict [(''local'', PStr ''10.0.0.110:50000''),
                                          (''remote'', PStr ''10.0.0.111:50000'')])])])])])]"

definition ex_output_111 :: pyval where
  "ex_output_111 = PDict
     [(''control_service'', PDict [(''cs1'', PDict [(''addr'', PStr ''10.0.0.111:31006'')])]),
      (''border_routers'', PDict
         [(''br'', PDict
            [(''internal_addr'', PStr ''10.0.0.111:31008''),
             (''interfaces'', PDict
                [(''41'', PDict
                   [(''isd_as'', PStr ''1-ff00:0:110''),
                    (''underlay'', PDict [(''local'', PStr ''10.0.0.111:50000''),
                                          (''remote'', PStr ''10.0.0.110:50000'')])])])])])]"

text \<open>The allocator after the link between 110 and 111 has its port.\<close>

definition ex_allocator_1 :: PortAllocator where
  "ex_allocator_1 =
     \<lparr>base_port = 50000, next_port = 50001,
      port_assignments = [(110, 111, 0) \<mapsto> 50000]\<rparr>"

text \<open>Two parallel links from node 110 to node 112, before and after the second loop.\<close>

definition ex_parallel_interfaces :: "(string \<times> pyval) list" where
  "ex_parallel_interfaces =
     [(''2'', PDict [(''isd_as'', PStr ''1-ff00:0:112''),
                     (''underlay'', PDict [(''local'', PStr ''127.0.0.6:50000''),
                                           (''remote'', PStr ''127.0.0.7:50000'')])]),
      (''3'', PDict [(''isd_as'', PStr ''1-ff00:0:112''),
                     (''underlay'', PDict [(''local'', PStr ''127.0.0.8:50000''),
                                           (''remote'', PStr ''127.0.0.9:50000'')])])]"

definition ex_parallel_output :: "(string \<times> pyval) list" where
  "ex_parallel_output =
     [(''2'', PDict [(''isd_as'', PStr ''1-ff00:0:112''),
                     (''underlay'', PDict [(''local'', PStr ''10.0.0.110:50001''),
                                           (''remote'', PStr ''10.0.0.112:50001'')])]),
      (''3'', PDict [(''isd_as'', PStr ''1-ff00:0:112''),
                     (''underlay'', PDict [(''local'', PStr ''10.0.0.110:50002''),
                                           (''remote'', PStr ''10.0.0.112:50002'')])])]"

definition ex_allocator_3 :: PortAllocator where
  "ex_allocator_3 =
     \<lparr>base_port = 50000, next_port = 50003,
      port_assignments = [(110, 111, 0) \<mapsto> 50000, (110, 112, 0) \<mapsto> 50001,
                          (110, 112, 1) \<mapsto> 50002]\<rparr>"

text \<open>
  The node number that \<^verbatim>\<open>extract_node_from_isd_as\<close> reads from the peer identifier
  of an interface, if it has one that parses.
\<close>

definition parsed_peer :: "pyval \<Rightarrow> int option" where
  "parsed_peer interface_data =
     (case interface_data of
        PDict d \<Rightarrow>
          (case map_of d ''isd_as'' of
             Some (PStr s) \<Rightarrow> search_suffix_number CHR '':'' s
           | _ \<Rightarrow> None)
      | _ \<Rightarrow> None)"

text \<open>The interface has a parseable peer and forms, with node \<open>n\<close>, the given node pair.\<close>

definition peer_in_pair :: "int \<Rightarrow> int \<times> int \<Rightarrow> pyval \<Rightarrow> bool" where
  "peer_in_pair n node_pair interface_data =
     (case parsed_peer interface_data of
        Some r \<Rightarrow> (min n r, max n r) = node_pair
      | None \<Rightarrow> False)"

text \<open>
  Node 110 with three interfaces: two links to node 111 and, between them, an
  interface whose peer identifier does not end in a number.
\<close>

definition ex_malformed_interface :: pyval where
  "ex_malformed_interface =
     PDict [(''isd_as'', PStr ''1-ff00:0:11x''),
            (''underlay'', PDict [(''local'', PStr ''127.0.0.6:50000''),
                                  (''remote'', PStr ''127.0.0.7:50000'')])]"

definition ex_mixed_interfaces :: "(string \<times> pyval) list" where
  "ex_mixed_interfaces =
     [(''1'', PDict [(''isd_as'', PStr ''1-ff00:0:111''),
                     (''underlay'', PDict [(''local'', PStr ''127.0.0.4:50000''),
                                           (''remote'', PStr ''127.0.0.5:50000'')])]),
      (''2'', ex_malformed_interface),
      (''3'', PDict [(''isd_as'', PStr ''1-ff00:0:111''),
                     (''underlay'', PDict [(''local'', PStr ''127.0.0.8:50000''),
                                           (''remote'', PStr ''127.0.0.9:50000'')])])]"

definition ex_mixed_output :: "(string \<times> pyval) list" where
  "ex_mixed_output =
     [(''1'', PDict [(''isd_as'', PStr ''1-ff00:0:111''),
                     (''underlay'', PDict [(''local'', PStr ''10.0.0.110:50000''),
                                           (''remote'', PStr ''10.0.0.111:50000'')])]),
      (''2'', ex_malformed_interface),
      (''3'', PDict [(''isd_as'', PStr ''1-ff00:0:111''),
                     (''underlay'', PDict [(''local'', PStr ''10.0.0.110:50001''),
                                           (''remote'', PStr ''10.0.0.111:50001'')])])]"

definition ex_mixed_topology :: pyval where
  "ex_mixed_topology =
     PDict [(''border_routers'',
             PDict [(''br1'', PDict [(''interfaces'', PDict ex_mixed_interfaces)])])]"

definition ex_mixed_topology_output :: pyval where
  "ex_mixed_topology_output =
     PDict [(''border_routers'',
             PDict [(''br'', PDict [(''internal_addr'', PNone),
                                    (''interfaces'', PDict ex_mixed_output)])])]"

definition ex_allocator_2 :: PortAllocator where
  "ex_allocator_2 =
     \<lparr>base_port = 50000, next_port = 50002,
      port_assignments = [(110, 111, 0) \<mapsto> 50000, (110, 111, 1) \<mapsto> 50001]\<rparr>"

text \<open>The value \<^verbatim>\<open>config[sec][key]\<close> of a loaded configuration, if it is there.\<close>

definition config_value :: "string \<Rightarrow> string \<Rightarrow> pyval \<Rightarrow> pyval option" where
  "config_value sec key config =
     (case config of
        PDict d \<Rightarrow> (case map_of d sec of Some (PDict t) \<Rightarrow> map_of t key | _ \<Rightarrow> None)
      | _ \<Rightarrow> None)"

text \<open>
  Service configurations in the shape of the generated \<^verbatim>\<open>br*.toml\<close>, \<^verbatim>\<open>cs*.toml\<close>
  and \<^verbatim>\<open>sd.toml\<close>, with a tracing section added to the first, and what the three
  functions make of them for node 110.
\<close>

definition ex_br_config :: pyval where
  "ex_br_config = PDict
     [(''general'', PDict [(''id'', PStr ''br1-ff00_0_110-1''), (''config_dir'', PStr ''gen/ASff00_0_110'')]),
      (''metrics'', PDict [(''prometheus'', PStr ''127.0.0.9:30042'')]),
      (''tracing'', PDict [(''agent'', PStr ''127.0.0.1:6831'')]),
      (''api'', PDict [(''addr'', PStr ''127.0.0.9:30742'')])]"

definition ex_br_output :: pyval where
  "ex_br_output = PDict
     [(''general'', PDict [(''id'', PStr ''br''), (''config_dir'', PStr ''/etc/scion/'')]),
      (''tracing'', PDict [(''agent'', PStr ''127.0.0.1:6831'')]),
      (''api'', PDict [(''addr'', PStr ''10.0.0.110:31442'')])]"

definition ex_cs_config :: pyval where
  "ex_cs_config = PDict
     [(''general'', PDict [(''id'', PStr ''cs1-ff00_0_110-1''), (''config_dir'', PStr ''gen/ASff00_0_110'')]),
      (''trust_db'', PDict [(''connection'', PStr ''gen-cache/cs1-ff00_0_110-1.trust.db'')]),
      (''tracing'', PDict [(''agent'', PStr ''127.0.0.1:6831'')]),
      (''metrics'', PDict [(''prometheus'', PStr ''127.0.0.18:30452'')]),
      (''api'', PDict [(''addr'', PStr ''127.0.0.18:31152'')])]"

definition ex_cs_output :: pyval where
  "ex_cs_output = PDict
     [(''general'', PDict [(''id'', PStr ''cs1-ff00_0_110-1''), (''config_dir'', PStr ''/etc/scion/'')]),
      (''trust_db'', PDict [(''connection'', PStr ''/etc/scion/trust.db'')]),
      (''api'', PDict [(''addr'', PStr ''10.0.0.110:31152'')])]"

definition ex_sd_config :: pyval where
  "ex_sd_config = PDict
     [(''general'', PDict [(''id'', PStr ''sd1-ff00_0_110''), (''config_dir'', PStr ''gen/ASff00_0_110'')]),
      (''path_db'', PDict [(''connection'', PStr ''gen-cache/sd1-ff00_0_110.path.db'')]),
      (''tracing'', PDict [(''agent'', PStr ''127.0.0.1:6831'')]),
      (''metrics'', PDict [(''prometheus'', PStr ''127.0.0.20:30455'')]),
      (''api'', PDict [(''addr'', PStr ''127.0.0.20:30955'')]),
      (''sd'', PDict [(''address'', PStr ''127.0.0.20:30255'')])]"

definition ex_sd_output :: pyval where
  "ex_sd_output = PDict
     [(''general'', PDict [(''id'', PStr ''sd1-ff00_0_110''), (''config_dir'', PStr ''/etc/scion/'')]),
      (''path_db'', PDict [(''connection'', PStr ''/etc/scion/path.db'')]),
      (''api'', PDict [(''addr'', PStr ''10.0.0.110:30955'')]),
      (''sd'', PDict [(''address'', PStr ''10.0.0.110:30255'')])]"

text \<open>A descriptor with a \<^verbatim>\<open>metrics\<close> key and a \<^verbatim>\<open>test_dispatcher\<close> key.\<close>

definition ex_marked_topology :: pyval where
  "ex_marked_topology = PDict
     [(''metrics'', PDict [(''prometheus'', PStr ''127.0.0.9:30042'')]),
      (''test_dispatcher'', PBool True)]"

definition ex_marked_topology_output :: pyval where
  "ex_marked_topology_output = PDict
     [(''metrics'', PDict [(''prometheus'', PStr ''127.0.0.9:30042'')])]"

text \<open>
  A descriptor whose control-service address is an IPv6 address, one whose border
  router has an IPv6 internal address, and what \<^verbatim>\<open>update_topology_json\<close> returns for
  them at node 110.
\<close>

definition ex_ipv6_service_topology :: pyval where
  "ex_ipv6_service_topology = PDict
     [(''control_service'',
       PDict [(''cs1'', PDict [(''addr'', PStr ''[fd00:f00d:cafe::7f00:14]:31000'')])])]"

definition ex_ipv6_service_output :: pyval where
  "ex_ipv6_service_output = PDict
     [(''control_service'', PDict [(''cs1'', PDict [(''addr'', PStr ''10.0.0.110:f00d'')])])]"

definition ex_ipv6_router_topology :: pyval where
  "ex_ipv6_router_topology = PDict
     [(''border_routers'',
       PDict [(''br1'', PDict [(''internal_addr'', PStr ''[fd00:f00d:cafe::7f00:9]:31002''),
                               (''interfaces'', PDict [])])])]"

definition ex_ipv6_router_output :: pyval where
  "ex_ipv6_router_output = PDict
     [(''border_routers'',
       PDict [(''br'', PDict [(''internal_addr'', PStr ''10.0.0.110:f00d''),
                              (''interfaces'', PDict [])])])]"

text \<open>
  Node 110 with two border routers, one interface each, a control service and a
  discovery service entry without an address.
\<close>

definition ex_two_routers :: "(string \<times> pyval) list" where
  "ex_two_routers =
     [(''br1'', PDict
         [(''internal_addr'', PStr ''127.0.0.9:31002''),
          (''interfaces'', PDict
             [(''1'', PDict [(''isd_as'', PStr ''1-ff00:0:111''),
                             (''underlay'', PDict [(''local'', PStr ''127.0.0.4:50000''),
                                                   (''remote'', PStr ''127.0.0.5:50000'')])])])]),
      (''br2'', PDict
         [(''internal_addr'', PStr ''127.0.0.10:31004''),
          (''interfaces'', PDict
             [(''2'', PDict [(''isd_as'', PStr ''1-ff00:0:112''),
                             (''underlay'', PDict [(''local'', PStr ''127.0.0.6:50000''),
                                                   (''remote'', PStr ''127.0.0.7:50000'')])])])])]"

definition ex_two_routers_topology :: pyval where
  "ex_two_routers_topology = PDict
     [(''control_service'', PDict [(''cs1'', PDict [(''addr'', PStr ''127.0.0.18:31000'')])]),
      (''discovery_service'', PDict [(''ds1'', PDict [(''name'', PStr ''ds1'')])]),
      (''border_routers'', PDict ex_two_routers)]"

definition ex_two_routers_interfaces :: "(string \<times> pyval) list" where
  "ex_two_routers_interfaces =
     [(''1'', PDict [(''isd_as'', PStr ''1-ff00:0:111''),
                     (''underlay'', PDict [(''local'', PStr ''10.0.0.110:50000''),
                                           (''remote'', PStr ''10.0.0.111:50000'')])]),
      (''2'', PDict [(''isd_as'', PStr ''1-ff00:0:112''),
                     (''underlay'', PDict [(''local'', PStr ''10.0.0.110:50001''),
                                           (''remote'', PStr ''10.0.0.112:50001'')])])]"

definition ex_two_routers_output :: pyval where
  "ex_two_routers_output = PDict
     [(''control_service'', PDict [(''cs1'', PDict [(''addr'', PStr ''10.0.0.110:31000'')])]),
      (''discovery_service'', PDict [(''ds1'', PDict [(''name'', PStr ''ds1'')])]),
      (''border_routers'',
       PDict [(''br'', PDict [(''internal_addr'', PStr ''10.0.0.110:31004''),
                              (''interfaces'', PDict ex_two_routers_interfaces)])])]"

definition ex_allocator_two :: PortAllocator where
  "ex_allocator_two =
     \<lparr>base_port = 50000, next_port = 50002,
      port_assignments = [(110, 111, 0) \<mapsto> 50000, (110, 112, 0) \<mapsto> 50001]\<rparr>"

text \<open>
  Every interface entry of every border router of a descriptor, in the order of the
  file: the interface tables one after the other.
\<close>

definition all_declared :: "pyval \<Rightarrow> (string \<times> pyval) list" where
  "all_declared topology =
     concat (map (\<lambda>br. br_interfaces (snd br)) (border_router_entries topology))"

text \<open>
  The sorted list \<open>as_dirs_with_numbers\<close> of \<^verbatim>\<open>build_as_to_node_mapping\<close> before it is
  sorted: the number and the name of every directory whose name starts with \<^verbatim>\<open>AS\<close>
  and ends in an underscore and digits.
\<close>

definition as_pairs :: "(string \<times> bool) list \<Rightarrow> (int \<times> string) list" where
  "as_pairs entries =
     concat (map (\<lambda>d. case extract_as_number (fst d) of
                         Some as_num \<Rightarrow> [(as_num, fst d)] | None \<Rightarrow> [])
               (filter (\<lambda>d. snd d \<and> starts_with ''AS'' (fst d)) entries))"

text \<open>
  A listing of the source directory: three node directories in the order 110, 112,
  111, a directory that is no node, a directory whose name has no number, and a file.
\<close>

definition ex_listing :: "(string \<times> bool) list" where
  "ex_listing =
     [(''ASff00_0_110'', True), (''ASff00_0_112'', True), (''ASff00_0_111'', True),
      (''ISD1'', True), (''ASkeys'', True), (''ASff00_0_113'', False)]"

text \<open>
  The interface is a dictionary with an \<^verbatim>\<open>underlay\<close> key: the guard of line 282 lets it
  through to the lines that read the peer and count the link.
\<close>

definition has_underlay :: "pyval \<Rightarrow> bool" where
  "has_underlay interface_data =
     (case interface_data of PDict d \<Rightarrow> map_of d ''underlay'' \<noteq> None | _ \<Rightarrow> False)"

text \<open>
  Node 110 with two interfaces whose peer is node 111; the first has no underlay
  entry. The descriptor that holds them, and both after \<^verbatim>\<open>update_topology_json\<close>.
\<close>

definition ex_bare_interfaces :: "(string \<times> pyval) list" where
  "ex_bare_interfaces =
     [(''1'', PDict [(''isd_as'', PStr ''1-ff00:0:111'')]),
      (''2'', PDict [(''isd_as'', PStr ''1-ff00:0:111''),
                     (''underlay'', PDict [(''local'', PStr ''127.0.0.4:50000''),
                                           (''remote'', PStr ''127.0.0.5:50000'')])])]"

definition ex_bare_output :: "(string \<times> pyval) list" where
  "ex_bare_output =
     [(''1'', PDict [(''isd_as'', PStr ''1-ff00:0:111'')]),
      (''2'', PDict [(''isd_as'', PStr ''1-ff00:0:111''),
                     (''underlay'', PDict [(''local'', PStr ''10.0.0.110:50000''),
                                           (''remote'', PStr ''10.0.0.111:50000'')])])]"

definition ex_bare_topology :: pyval where
  "ex_bare_topology =
     PDict [(''border_routers'',
             PDict [(''br1'', PDict [(''interfaces'', PDict ex_bare_interfaces)])])]"

definition ex_bare_topology_output :: pyval where
  "ex_bare_topology_output =
     PDict [(''border_routers'',
             PDict [(''br'', PDict [(''internal_addr'', PNone),
                                    (''interfaces'', PDict ex_bare_output)])])]"

text \<open>
  Node 110 with four interfaces: a link to node 111, an interface to 111 without an
  underlay entry, an interface whose peer identifier does not parse, and a second
  link to 111; and the first three after the second loop.
\<close>

definition ex_ordinal_interfaces :: "(string \<times> pyval) list" where
  "ex_ordinal_interfaces =
     [(''1'', PDict [(''isd_as'', PStr ''1-ff00:0:111''),
                     (''underlay'', PDict [(''local'', PStr ''127.0.0.4:50000''),
                                           (''remote'', PStr ''127.0.0.5:50000'')])]),
      (''2'', PDict [(''isd_as'', PStr ''1-ff00:0:111'')]),
      (''3'', ex_malformed_interface),
      (''4'', PDict [(''isd_as'', PStr ''1-ff00:0:111''),
                     (''underlay'', PDict [(''local'', PStr ''127.0.0.8:50000''),
                                           (''remote'', PStr ''127.0.0.9:50000'')])])]"

definition ex_ordinal_prefix_output :: "(string \<times> pyval) list" where
  "ex_ordinal_prefix_output =
     [(''1'', PDict [(''isd_as'', PStr ''1-ff00:0:111''),
                     (''underlay'', PDict [(''local'', PStr ''10.0.0.110:50000''),
                                           (''remote'', PStr ''10.0.0.111:50000'')])]),
      (''2'', PDict [(''isd_as'', PStr ''1-ff00:0:111'')]),
      (''3'', ex_malformed_interface)]"

section \<open>Basic facts\<close>

lemma ebind_Inl [simp]: "ebind (Inl e) f = Inl e"
  by (simp add: ebind_def)

lemma ebind_Inr [simp]: "ebind (Inr x) f = f x"
  by (simp add: ebind_def)

lemma ebind_eq_Inr: "ebind m f = Inr y \<longleftrightarrow> (\<exists>x. m = Inr x \<and> f x = Inr y)"
  by (cases m) simp_all

lemma get_port_hit:
  "port_assignments pa (min a b, max a b, i) = Some p \<Longrightarrow> get_port pa a b i = (p, pa)"
  by (simp add: get_port_def)

lemma get_port_miss:
  "port_assignments pa (min a b, max a b, i) = None \<Longrightarrow>
   get_port pa a b i =
     (next_port pa,
      pa\<lparr>port_assignments := (port_assignments pa)((min a b, max a b, i) \<mapsto> next_port pa),
         next_port := next_port pa + 1\<rparr>)"
  by (simp add: get_port_def)

lemma get_port_stored:
  "port_assignments (snd (get_port pa a b i)) (min a b, max a b, i) = Some (fst (get_port pa a b i))"
  by (cases "port_assignments pa (min a b, max a b, i)") (simp_all add: get_port_hit get_port_miss)

lemma get_port_inv:
  assumes "allocator_inv pa"
  shows "allocator_inv (snd (get_port pa a b i))"
proof (cases "port_assignments pa (min a b, max a b, i)")
  case (Some p)
  then show ?thesis using assms by (simp add: get_port_hit)
next
  case None
  let ?k = "(min a b, max a b, i)"
  let ?m = "port_assignments pa"
  have knd: "?k \<notin> dom ?m" using None by (simp add: domIff)
  have fresh: "next_port pa \<notin> ran ?m"
    using assms by (simp add: allocator_inv_def)
  have inj: "inj_on (?m(?k \<mapsto> next_port pa)) (dom (?m(?k \<mapsto> next_port pa)))"
  proof (rule inj_onI)
    fix x y
    assume x: "x \<in> dom (?m(?k \<mapsto> next_port pa))" and y: "y \<in> dom (?m(?k \<mapsto> next_port pa))"
      and e: "(?m(?k \<mapsto> next_port pa)) x = (?m(?k \<mapsto> next_port pa)) y"
    show "x = y"
    proof (cases "x = ?k")
      case True
      show ?thesis
      proof (rule ccontr)
        assume "x \<noteq> y"
        then have "?m y = Some (next_port pa)" using e True by (simp split: if_splits)
        then have "next_port pa \<in> ran ?m" by (rule ranI)
        then show False using fresh by simp
      qed
    next
      case False
      show ?thesis
      proof (cases "y = ?k")
        case True
        then have "?m x = Some (next_port pa)" using e False by (simp split: if_splits)
        then have "next_port pa \<in> ran ?m" by (rule ranI)
        then show ?thesis using fresh by simp
      next
        case yk: False
        have "?m x = ?m y" using e False yk by simp
        moreover have "x \<in> dom ?m" "y \<in> dom ?m" using x y False yk by auto
        ultimately show ?thesis using assms by (auto simp: allocator_inv_def dest: inj_onD)
      qed
    qed
  qed
  have "ran (?m(?k \<mapsto> next_port pa)) = insert (next_port pa) (ran ?m)"
    using None by simp
  also have "\<dots> = {base_port pa ..< next_port pa + 1}"
    using assms by (auto simp: allocator_inv_def)
  finally have rn: "ran (?m(?k \<mapsto> next_port pa)) = {base_port pa ..< next_port pa + 1}" .
  show ?thesis
    using assms inj rn None by (simp add: get_port_miss allocator_inv_def)
qed

lemma get_port_base: "base_port (snd (get_port pa a b i)) = base_port pa"
  by (cases "port_assignments pa (min a b, max a b, i)") (simp_all add: get_port_hit get_port_miss)

lemma main_allocator_inv: "allocator_inv main_allocator"
  by (simp add: allocator_inv_def main_allocator_def PortAllocator_init_def)

lemma reachable_inv: "allocator_reachable pa \<Longrightarrow> allocator_inv pa \<and> base_port pa = 50000"
proof (induction rule: allocator_reachable.induct)
  case start
  show ?case using main_allocator_inv by (simp add: main_allocator_def PortAllocator_init_def)
next
  case (call pa a b i)
  then show ?case by (simp add: get_port_inv get_port_base)
qed

lemma py_getitem_Inr: "py_getitem v k = Inr x \<longleftrightarrow> (\<exists>d. v = PDict d \<and> map_of d k = Some x)"
  by (cases v) (auto split: option.splits)

lemma py_setitem_Inr: "py_setitem v k x = Inr y \<longleftrightarrow> (\<exists>d. v = PDict d \<and> y = PDict (AList.update k x d))"
  by (cases v) auto

lemma py_items_Inr: "py_items v = Inr d \<longleftrightarrow> v = PDict d"
  by (cases v) auto

lemma extract_node_Inr: "extract_node_from_isd_as v = Inr r \<longleftrightarrow> (\<exists>s. v = PStr s \<and> r = search_suffix_number CHR '':'' s)"
  by (cases v) auto

lemma process_interface_Inr:
  assumes "process_interface n idata (lc, pa) = Inr (idata', lc', pa')"
  shows "case link_peer idata of
           None \<Rightarrow> idata' = idata \<and> lc' = lc \<and> pa' = pa
         | Some r \<Rightarrow>
             (\<exists>d u u1 u2 i p. idata = PDict d \<and> map_of d ''underlay'' = Some u \<and>
                assign_link n r lc pa = (i, p, lc', pa') \<and>
                set_underlay_addr ''local'' n p u = Inr u1 \<and>
                set_underlay_addr ''remote'' r p u1 = Inr u2 \<and>
                idata' = PDict (AList.update ''underlay'' u2 d))"
proof (cases "py_in ''underlay'' idata")
  case (Inl e)
  then show ?thesis using assms by (simp add: process_interface_def)
next
  case (Inr has)
  show ?thesis
  proof (cases has)
    case False
    then have "link_peer idata = None"
      using Inr by (cases idata) (auto simp: link_peer_def)
    then show ?thesis using assms Inr False by (simp add: process_interface_def)
  next
    case True
    from assms Inr True obtain u where gu: "py_getitem idata ''underlay'' = Inr u"
      by (auto simp: process_interface_def ebind_eq_Inr)
    then obtain d where d: "idata = PDict d" and u: "map_of d ''underlay'' = Some u"
      by (auto simp: py_getitem_Inr)
    show ?thesis
    proof (cases "map_of d ''isd_as''")
      case None
      then have "link_peer idata = None" using d by (simp add: link_peer_def)
      moreover have "py_in ''isd_as'' idata = Inr False" using d None by simp
      ultimately show ?thesis using assms Inr True gu by (simp add: process_interface_def)
    next
      case (Some v)
      then have hin: "py_in ''isd_as'' idata = Inr True" using d by simp
      have gv: "py_getitem idata ''isd_as'' = Inr v" using d Some by simp
      from assms Inr True gu hin gv obtain ro where ro: "extract_node_from_isd_as v = Inr ro"
        by (cases "extract_node_from_isd_as v") (auto simp: process_interface_def)
      then obtain s where s: "v = PStr s" and ros: "ro = search_suffix_number CHR '':'' s"
        by (auto simp: extract_node_Inr)
      have lp: "link_peer idata = ro" using d u Some s ros by (simp add: link_peer_def)
      show ?thesis
      proof (cases ro)
        case None
        then show ?thesis using assms Inr True gu hin gv ro lp by (simp add: process_interface_def)
      next
        case (Some r)
        obtain i p lc1 pa1 where al: "assign_link n r lc pa = (i, p, lc1, pa1)"
          by (cases "assign_link n r lc pa") auto
        from assms Inr True gu hin gv ro Some al
        have "ebind (set_underlay_addr ''local'' n p u) (\<lambda>u1.
                ebind (set_underlay_addr ''remote'' r p u1) (\<lambda>u2.
                ebind (py_setitem idata ''underlay'' u2) (\<lambda>interface_data'.
                  Inr (interface_data', lc1, pa1)))) = Inr (idata', lc', pa')"
          by (simp add: process_interface_def node_to_ip_def)
        then obtain u1 u2 where "set_underlay_addr ''local'' n p u = Inr u1"
          "set_underlay_addr ''remote'' r p u1 = Inr u2"
          "idata' = PDict (AList.update ''underlay'' u2 d)" "lc' = lc1" "pa' = pa1"
          using d by (auto simp: ebind_eq_Inr)
        then show ?thesis using lp Some d u al by simp
      qed
    qed
  qed
qed

lemma assign_link_eq:
  assumes "assign_link n r lc pa = (i, p, lc', pa')"
  shows "i = get_default lc (min n r, max n r) 0"
    and "lc' = lc((min n r, max n r) \<mapsto> i + 1)"
    and "get_port pa n r i = (p, pa')"
  using assms by (auto simp: assign_link_def Let_def split: prod.splits)

lemma get_port_mono:
  "port_assignments pa \<subseteq>\<^sub>m port_assignments (snd (get_port pa a b i))"
  by (cases "port_assignments pa (min a b, max a b, i)")
     (auto simp: get_port_hit get_port_miss map_le_def)

lemma pair_eq_iff: "(min (n::int) r, max n r) = (min n r', max n r') \<longleftrightarrow> r = r'"
  by (auto simp: min_def max_def split: if_splits)

lemma links_before_0 [simp]: "links_before r 0 ifs = 0"
  by (simp add: links_before_def)

lemma links_before_Suc:
  "links_before r (Suc j) (x # ifs) =
     (if link_peer (snd x) = Some r then 1 else 0) + links_before r j ifs"
  by (simp add: links_before_def)

lemma process_interfaces_keys:
  "process_interfaces n ifs st = Inr (ifs', st') \<Longrightarrow> map fst ifs' = map fst ifs"
proof (induction ifs arbitrary: st ifs')
  case Nil
  then show ?case by simp
next
  case (Cons x ifs)
  obtain iid d where x: "x = (iid, d)" by (cases x)
  from Cons.prems x obtain d' st1 rest' where
    "process_interface n d st = Inr (d', st1)"
    "process_interfaces n ifs st1 = Inr (rest', st')"
    "ifs' = (iid, d') # rest'"
    by (auto simp: ebind_eq_Inr)
  then show ?case using Cons.IH x by auto
qed

lemma process_interface_mono:
  assumes "process_interface n d (lc, pa) = Inr (d', lc', pa')"
  shows "port_assignments pa \<subseteq>\<^sub>m port_assignments pa'"
proof (cases "link_peer d")
  case None
  then show ?thesis using process_interface_Inr [OF assms] by simp
next
  case (Some r)
  then obtain i p where "assign_link n r lc pa = (i, p, lc', pa')"
    using process_interface_Inr [OF assms] by auto
  then have "get_port pa n r i = (p, pa')" by (rule assign_link_eq)
  then show ?thesis using get_port_mono [of pa n r i] by simp
qed

lemma process_interfaces_mono:
  "process_interfaces n ifs (lc, pa) = Inr (ifs', lc', pa') \<Longrightarrow>
   port_assignments pa \<subseteq>\<^sub>m port_assignments pa'"
proof (induction ifs arbitrary: lc pa ifs')
  case Nil
  then show ?case by simp
next
  case (Cons x ifs)
  obtain iid d where x: "x = (iid, d)" by (cases x)
  from Cons.prems x obtain d' lc1 pa1 rest' where
    h: "process_interface n d (lc, pa) = Inr (d', lc1, pa1)"
    and t: "process_interfaces n ifs (lc1, pa1) = Inr (rest', lc', pa')"
    by (auto simp: ebind_eq_Inr)
  from h have "port_assignments pa \<subseteq>\<^sub>m port_assignments pa1" by (rule process_interface_mono)
  moreover from t have "port_assignments pa1 \<subseteq>\<^sub>m port_assignments pa'" by (rule Cons.IH)
  ultimately show ?case by (rule map_le_trans)
qed

lemma process_interfaces_nth:
  assumes "process_interfaces n ifs (lc, pa) = Inr (ifs', lc', pa')" and "j < length ifs"
  shows "case link_peer (snd (ifs ! j)) of
           None \<Rightarrow> snd (ifs' ! j) = snd (ifs ! j)
         | Some r \<Rightarrow>
             (\<exists>p. port_assignments pa'
                     (min n r, max n r,
                      get_default lc (min n r, max n r) 0 + int (links_before r j ifs)) = Some p \<and>
                   rewritten_with n r p (snd (ifs ! j)) (snd (ifs' ! j)))"
  using assms
proof (induction ifs arbitrary: lc pa ifs' j)
  case Nil
  then show ?case by simp
next
  case (Cons x ifs)
  obtain iid d where x: "x = (iid, d)" by (cases x)
  from Cons.prems(1) x obtain d' lc1 pa1 rest' where
    h: "process_interface n d (lc, pa) = Inr (d', lc1, pa1)"
    and t: "process_interfaces n ifs (lc1, pa1) = Inr (rest', lc', pa')"
    and ifs': "ifs' = (iid, d') # rest'"
    by (auto simp: ebind_eq_Inr)
  note hd = process_interface_Inr [OF h]
  have mono: "port_assignments pa1 \<subseteq>\<^sub>m port_assignments pa'"
    using t by (rule process_interfaces_mono)
  show ?case
  proof (cases j)
    case 0
    show ?thesis
    proof (cases "link_peer d")
      case None
      then show ?thesis using hd 0 x ifs' by simp
    next
      case (Some r)
      then obtain dd u u1 u2 i p where
        dd: "d = PDict dd" "map_of dd ''underlay'' = Some u"
        and al: "assign_link n r lc pa = (i, p, lc1, pa1)"
        and rw: "set_underlay_addr ''local'' n p u = Inr u1"
                "set_underlay_addr ''remote'' r p u1 = Inr u2"
                "d' = PDict (AList.update ''underlay'' u2 dd)"
        using hd by auto
      have i: "i = get_default lc (min n r, max n r) 0" using al by (rule assign_link_eq)
      have "get_port pa n r i = (p, pa1)" using al by (rule assign_link_eq)
      then have "port_assignments pa1 (min n r, max n r, i) = Some p"
        using get_port_stored [of pa n r i] by simp
      then have "port_assignments pa' (min n r, max n r, i) = Some p"
        using mono by (auto simp: map_le_def dom_def)
      moreover have "rewritten_with n r p d d'"
        using dd rw by (auto simp: rewritten_with_def)
      ultimately show ?thesis using Some 0 x ifs' i by simp
    qed
  next
    case (Suc j')
    then have j': "j' < length ifs" using Cons.prems(2) by simp
    note ih = Cons.IH [OF t j']
    show ?thesis
    proof (cases "link_peer (snd (ifs ! j'))")
      case None
      then show ?thesis using ih Suc ifs' by simp
    next
      case (Some r)
      then obtain p where
        p: "port_assignments pa'
              (min n r, max n r,
               get_default lc1 (min n r, max n r) 0 + int (links_before r j' ifs)) = Some p"
        and rw: "rewritten_with n r p (snd (ifs ! j')) (snd (rest' ! j'))"
        using ih by auto
      have "get_default lc1 (min n r, max n r) 0 + int (links_before r j' ifs) =
            get_default lc (min n r, max n r) 0 + int (links_before r (Suc j') (x # ifs))"
      proof (cases "link_peer d")
        case None
        then have "lc1 = lc" using hd by simp
        then show ?thesis using None x by (simp add: links_before_Suc)
      next
        case r0: (Some r0)
        then obtain i p0 where "assign_link n r0 lc pa = (i, p0, lc1, pa1)"
          using hd by auto
        then have "i = get_default lc (min n r0, max n r0) 0"
          and "lc1 = lc((min n r0, max n r0) \<mapsto> i + 1)"
          by (rule assign_link_eq)+
        then show ?thesis using r0 x pair_eq_iff [of n r0 r]
          by (auto simp: links_before_Suc get_default_def)
      qed
      then show ?thesis using p rw Some Suc ifs' by simp
    qed
  qed
qed

lemma py_in_Inr_True_getitem:
  "py_in k v = Inr True \<Longrightarrow> py_getitem v k = Inr x \<Longrightarrow> \<exists>d. v = PDict d \<and> map_of d k = Some x"
  by (simp add: py_getitem_Inr)

lemma py_delitem_Inr:
  "py_delitem v k = Inr y \<longleftrightarrow> (\<exists>d. v = PDict d \<and> map_of d k \<noteq> None \<and> y = PDict (AList.delete k d))"
  by (cases v) auto

lemma del_section_Inr:
  assumes "del_section k t = Inr t1"
  shows "py_in k t1 = Inr False \<and> (t1 = t \<or> (\<exists>d. t = PDict d \<and> t1 = PDict (AList.delete k d)))"
proof (cases "py_in k t")
  case (Inl e)
  then show ?thesis using assms by (simp add: del_section_def)
next
  case (Inr b)
  show ?thesis
  proof (cases b)
    case True
    then have "py_delitem t k = Inr t1" using assms Inr by (simp add: del_section_def)
    then obtain d where "t = PDict d" "t1 = PDict (AList.delete k d)"
      by (auto simp: py_delitem_Inr)
    then show ?thesis by (simp add: delete_conv')
  next
    case False
    then show ?thesis using assms Inr by (simp add: del_section_def)
  qed
qed

lemma rewrite_service_entries_keys:
  "rewrite_service_entries n es = Inr es' \<Longrightarrow> map fst es' = map fst es"
proof (induction es arbitrary: es')
  case Nil
  then show ?case by simp
next
  case (Cons x es)
  obtain name sd where x: "x = (name, sd)" by (cases x)
  from Cons.prems x obtain sd' rest' where
    "rewrite_service_entries n es = Inr rest'" "es' = (name, sd') # rest'"
    by (auto simp: ebind_eq_Inr)
  then show ?case using Cons.IH x by simp
qed

lemma rewrite_service_entries_nth:
  "rewrite_service_entries n es = Inr es' \<Longrightarrow> j < length es \<Longrightarrow>
   rewrite_service_addr n (snd (es ! j)) = Inr (snd (es' ! j))"
proof (induction es arbitrary: es' j)
  case Nil
  then show ?case by simp
next
  case (Cons x es)
  obtain name sd where x: "x = (name, sd)" by (cases x)
  from Cons.prems(1) x obtain sd' rest' where
    h: "rewrite_service_addr n sd = Inr sd'"
    and t: "rewrite_service_entries n es = Inr rest'" and e: "es' = (name, sd') # rest'"
    by (auto simp: ebind_eq_Inr)
  show ?case
  proof (cases j)
    case 0
    then show ?thesis using h e x by simp
  next
    case (Suc j')
    then show ?thesis using Cons.IH [OF t, of j'] Cons.prems(2) e by simp
  qed
qed

lemma rewrite_services_Inr:
  assumes "rewrite_services n table t = Inr t1"
  shows "(py_in table t = Inr False \<and> t1 = t) \<or>
         (\<exists>d es es'. t = PDict d \<and> map_of d table = Some (PDict es) \<and>
            rewrite_service_entries n es = Inr es' \<and>
            t1 = PDict (AList.update table (PDict es') d))"
proof (cases "py_in table t")
  case (Inl e)
  then show ?thesis using assms by (simp add: rewrite_services_def)
next
  case (Inr b)
  show ?thesis
  proof (cases b)
    case False
    then show ?thesis using assms Inr by (simp add: rewrite_services_def)
  next
    case True
    then obtain sv es es' where "py_getitem t table = Inr sv" "py_items sv = Inr es"
      "rewrite_service_entries n es = Inr es'" "py_setitem t table (PDict es') = Inr t1"
      using assms Inr by (auto simp: rewrite_services_def ebind_eq_Inr)
    then show ?thesis by (auto simp: py_getitem_Inr py_items_Inr)
  qed
qed

lemma map_of_update_other: "k' \<noteq> k \<Longrightarrow> map_of (AList.update k v d) k' = map_of d k'"
  by (simp add: update_conv')

lemma map_of_update_same: "map_of (AList.update k v d) k = Some v"
  by (simp add: update_conv')

lemma del_section_lookup:
  assumes "del_section k t = Inr t1" and "k' \<noteq> k"
  shows "py_getitem t1 k' = py_getitem t k'" and "py_in k' t1 = py_in k' t"
  using del_section_Inr [OF assms(1)] assms(2)
  by auto

lemma rewrite_services_lookup:
  assumes "rewrite_services n table t = Inr t1" and "k' \<noteq> table"
  shows "py_getitem t1 k' = py_getitem t k'" and "py_in k' t1 = py_in k' t"
  using rewrite_services_Inr [OF assms(1)] assms(2)
  by (auto simp: map_of_update_other)

lemma add_interfaces_Nil [simp]: "add_interfaces acc [] = acc"
  by (simp add: add_interfaces_def)

lemma br_interfaces_absent: "py_in ''interfaces'' br = Inr False \<Longrightarrow> br_interfaces br = []"
  by (cases br) (auto simp: br_interfaces_def)

lemma br_internal_addr_absent:
  "py_in ''internal_addr'' br = Inr False \<Longrightarrow> br_internal_addr br = None"
  by (cases br) (auto simp: br_internal_addr_def)

text \<open>One round of the first loop, when it does not raise.\<close>

lemma collect_step:
  assumes "collect_border_routers n ((name, br) # rest) (acc, c) = Inr res"
  shows "\<exists>c1. collect_border_routers n rest (add_interfaces acc (br_interfaces br), c1) = Inr res \<and>
           (case br_internal_addr br of
              None \<Rightarrow> c1 = c
            | Some a \<Rightarrow> (\<exists>port. py_split_colon_1 a = Inr port \<and> c1 = PStr (addr_fmt n port)))"
proof -
  from assms obtain has c1 hi all1 where
    has: "py_in ''internal_addr'' br = Inr has"
    and c1: "(if has then ebind (py_getitem br ''internal_addr'') (\<lambda>a.
                 ebind (py_split_colon_1 a) (\<lambda>port. Inr (PStr (addr_fmt (node_to_ip n) port))))
              else Inr c) = Inr c1"
    and hi: "py_in ''interfaces'' br = Inr hi"
    and all1: "(if hi then ebind (py_getitem br ''interfaces'') (\<lambda>ifs.
                 ebind (py_items ifs) (\<lambda>interfaces. Inr (add_interfaces acc interfaces)))
               else Inr acc) = Inr all1"
    and rest: "collect_border_routers n rest (all1, c1) = Inr res"
    by (auto simp: ebind_eq_Inr)
  have a: "all1 = add_interfaces acc (br_interfaces br)"
  proof (cases hi)
    case True
    then obtain iv ifs where "py_getitem br ''interfaces'' = Inr iv" "py_items iv = Inr ifs"
      "all1 = add_interfaces acc ifs"
      using all1 by (auto simp: ebind_eq_Inr)
    then show ?thesis by (auto simp: py_getitem_Inr py_items_Inr br_interfaces_def)
  next
    case False
    then show ?thesis using all1 hi by (simp add: br_interfaces_absent)
  qed
  have "case br_internal_addr br of
          None \<Rightarrow> c1 = c
        | Some a \<Rightarrow> (\<exists>port. py_split_colon_1 a = Inr port \<and> c1 = PStr (addr_fmt n port))"
  proof (cases has)
    case True
    then obtain a port where "py_getitem br ''internal_addr'' = Inr a"
      "py_split_colon_1 a = Inr port" "c1 = PStr (addr_fmt (node_to_ip n) port)"
      using c1 by (auto simp: ebind_eq_Inr)
    then show ?thesis by (auto simp: py_getitem_Inr br_internal_addr_def node_to_ip_def)
  next
    case False
    then show ?thesis using c1 has by (simp add: br_internal_addr_absent)
  qed
  then show ?thesis using a rest by auto
qed

lemma collect_interfaces:
  "collect_border_routers n brs (acc, c) = Inr (all, c') \<Longrightarrow>
   all = foldl add_interfaces acc (map (\<lambda>br. br_interfaces (snd br)) brs)"
proof (induction brs arbitrary: acc c)
  case Nil
  then show ?case by simp
next
  case (Cons x brs)
  obtain name br where x: "x = (name, br)" by (cases x)
  from Cons.prems x obtain c1 where
    "collect_border_routers n brs (add_interfaces acc (br_interfaces br), c1) = Inr (all, c')"
    using collect_step by blast
  then show ?case using Cons.IH x by simp
qed

lemma collect_no_addr:
  "collect_border_routers n brs (acc, c) = Inr (all, c') \<Longrightarrow>
   \<forall>x\<in>set brs. br_internal_addr (snd x) = None \<Longrightarrow> c' = c"
proof (induction brs arbitrary: acc c)
  case Nil
  then show ?case by simp
next
  case (Cons x brs)
  obtain name br where x: "x = (name, br)" by (cases x)
  from Cons.prems(1) x obtain c1 where
    r: "collect_border_routers n brs (add_interfaces acc (br_interfaces br), c1) = Inr (all, c')"
    and c1: "case br_internal_addr br of
               None \<Rightarrow> c1 = c
             | Some a \<Rightarrow> (\<exists>port. py_split_colon_1 a = Inr port \<and> c1 = PStr (addr_fmt n port))"
    using collect_step by blast
  have "c1 = c" using c1 Cons.prems(2) x by simp
  moreover have "c' = c1" using Cons.IH [OF r] Cons.prems(2) by simp
  ultimately show ?case by simp
qed

lemma collect_last_addr:
  "collect_border_routers n (pre @ (name, br) # post) (acc, c) = Inr (all, c') \<Longrightarrow>
   br_internal_addr br = Some a \<Longrightarrow>
   \<forall>x\<in>set post. br_internal_addr (snd x) = None \<Longrightarrow>
   \<exists>port. py_split_colon_1 a = Inr port \<and> c' = PStr (addr_fmt n port)"
proof (induction pre arbitrary: acc c)
  case Nil
  from Nil(1) obtain c1 where
    r: "collect_border_routers n post (add_interfaces acc (br_interfaces br), c1) = Inr (all, c')"
    and c1: "case br_internal_addr br of
               None \<Rightarrow> c1 = c
             | Some a \<Rightarrow> (\<exists>port. py_split_colon_1 a = Inr port \<and> c1 = PStr (addr_fmt n port))"
    using collect_step [of n name br post acc c] by auto
  have "c' = c1" using collect_no_addr [OF r Nil(3)] .
  then show ?case using c1 Nil(2) by simp
next
  case (Cons x pre)
  obtain name0 br0 where x: "x = (name0, br0)" by (cases x)
  from Cons.prems(1) x obtain c1 where
    "collect_border_routers n (pre @ (name, br) # post)
       (add_interfaces acc (br_interfaces br0), c1) = Inr (all, c')"
    using collect_step [of n name0 br0 "pre @ (name, br) # post" acc c] by auto
  then show ?case using Cons.IH Cons.prems(2,3) by blast
qed

lemma border_router_entries_cong:
  "py_getitem t1 ''border_routers'' = py_getitem t ''border_routers'' \<Longrightarrow>
   border_router_entries t1 = border_router_entries t"
  by (cases t; cases t1) (auto simp: border_router_entries_def split: option.splits)

lemma consolidate_Inr:
  assumes "consolidate_border_routers n t pa = Inr (t', pa')"
    and "py_in ''border_routers'' t = Inr True"
  shows "\<exists>d c ifs' lc. t = PDict d \<and>
           collect_border_routers n (border_router_entries t) ([], PNone)
             = Inr (declared_interfaces t, c) \<and>
           process_interfaces n (declared_interfaces t) (Map.empty, pa) = Inr (ifs', lc, pa') \<and>
           t' = PDict (AList.update ''border_routers''
                  (PDict [(''br'', PDict [(''internal_addr'', c), (''interfaces'', PDict ifs')])]) d)"
proof -
  from assms obtain brs es all c ifs' lc where
    g: "py_getitem t ''border_routers'' = Inr brs" and i: "py_items brs = Inr es"
    and col: "collect_border_routers n es ([], PNone) = Inr (all, c)"
    and pr: "process_interfaces n all (Map.empty, pa) = Inr (ifs', lc, pa')"
    and st: "py_setitem t ''border_routers''
               (PDict [(''br'', PDict [(''internal_addr'', c), (''interfaces'', PDict ifs')])])
             = Inr t'"
    by (auto simp: consolidate_border_routers_def ebind_eq_Inr)
  from g i obtain d where d: "t = PDict d" "map_of d ''border_routers'' = Some (PDict es)"
    by (auto simp: py_getitem_Inr py_items_Inr)
  then have es: "border_router_entries t = es" by (simp add: border_router_entries_def)
  have all: "all = declared_interfaces t"
    using collect_interfaces [OF col] es by (simp add: declared_interfaces_def)
  show ?thesis using d es all col pr st by (auto simp: py_setitem_Inr)
qed

lemma update_topology_json_Inr:
  assumes "update_topology_json topo n pa = Inr (topo', pa')"
    and "py_in ''border_routers'' topo = Inr True"
  shows "\<exists>c ifs' lc.
           collect_border_routers n (border_router_entries topo) ([], PNone)
             = Inr (declared_interfaces topo, c) \<and>
           process_interfaces n (declared_interfaces topo) (Map.empty, pa) = Inr (ifs', lc, pa') \<and>
           border_router_entries topo'
             = [(''br'', PDict [(''internal_addr'', c), (''interfaces'', PDict ifs')])] \<and>
           output_interfaces topo' = ifs'"
proof -
  from assms(1) obtain t1 t2 t3 where
    t1: "del_section ''test_dispatcher'' topo = Inr t1"
    and t2: "rewrite_services n ''control_service'' t1 = Inr t2"
    and t3: "rewrite_services n ''discovery_service'' t2 = Inr t3"
    and con: "consolidate_border_routers n t3 pa = Inr (topo', pa')"
    by (auto simp: update_topology_json_def ebind_eq_Inr)
  have g: "py_getitem t3 ''border_routers'' = py_getitem topo ''border_routers''"
    using del_section_lookup(1) [OF t1, of "''border_routers''"]
      rewrite_services_lookup(1) [OF t2, of "''border_routers''"]
      rewrite_services_lookup(1) [OF t3, of "''border_routers''"] by simp
  have i: "py_in ''border_routers'' t3 = Inr True"
    using del_section_lookup(2) [OF t1, of "''border_routers''"]
      rewrite_services_lookup(2) [OF t2, of "''border_routers''"]
      rewrite_services_lookup(2) [OF t3, of "''border_routers''"] assms(2) by simp
  have e: "border_router_entries t3 = border_router_entries topo"
    using g by (rule border_router_entries_cong)
  then have di: "declared_interfaces t3 = declared_interfaces topo"
    by (simp add: declared_interfaces_def)
  from consolidate_Inr [OF con i] obtain d c ifs' lc where
    "collect_border_routers n (border_router_entries t3) ([], PNone)
       = Inr (declared_interfaces t3, c)"
    "process_interfaces n (declared_interfaces t3) (Map.empty, pa) = Inr (ifs', lc, pa')"
    "topo' = PDict (AList.update ''border_routers''
                  (PDict [(''br'', PDict [(''internal_addr'', c), (''interfaces'', PDict ifs')])]) d)"
    by blast
  then show ?thesis using e di
    by (auto simp: border_router_entries_def output_interfaces_def br_interfaces_def
        map_of_update_same)
qed

lemma rewritten_with_addrs:
  assumes "rewritten_with n r p idata idata'"
    and "underlay_addr ''local'' idata \<noteq> None" and "underlay_addr ''remote'' idata \<noteq> None"
  shows "underlay_addr ''local'' idata' = Some (PStr (addr_fmt n (str_int p)))"
    and "underlay_addr ''remote'' idata' = Some (PStr (addr_fmt r (str_int p)))"
proof -
  from assms(1) obtain d u u1 u2 where
    d: "idata = PDict d" "map_of d ''underlay'' = Some u"
    and u1: "set_underlay_addr ''local'' n p u = Inr u1"
    and u2: "set_underlay_addr ''remote'' r p u1 = Inr u2"
    and i': "idata' = PDict (AList.update ''underlay'' u2 d)"
    by (auto simp: rewritten_with_def)
  from assms(2) d obtain ud where ud: "u = PDict ud" "map_of ud ''local'' \<noteq> None"
    by (cases u) (auto simp: underlay_addr_def)
  have rm: "map_of ud ''remote'' \<noteq> None" using assms(3) d ud by (simp add: underlay_addr_def)
  have e1: "u1 = PDict (AList.update ''local'' (PStr (addr_fmt n (str_int p))) ud)"
    using u1 ud by (simp add: set_underlay_addr_def)
  have e2: "u2 = PDict (AList.update ''remote'' (PStr (addr_fmt r (str_int p)))
                  (AList.update ''local'' (PStr (addr_fmt n (str_int p))) ud))"
    using u2 e1 rm by (simp add: set_underlay_addr_def update_conv')
  show "underlay_addr ''local'' idata' = Some (PStr (addr_fmt n (str_int p)))"
    using i' e2 by (simp add: underlay_addr_def update_conv')
  show "underlay_addr ''remote'' idata' = Some (PStr (addr_fmt r (str_int p)))"
    using i' e2 by (simp add: underlay_addr_def update_conv')
qed

lemma declared_interfaces_nonempty:
  "declared_interfaces topo \<noteq> [] \<Longrightarrow> py_in ''border_routers'' topo = Inr True"
  by (cases topo)
     (auto simp: declared_interfaces_def border_router_entries_def split: option.splits)

text \<open>The port a processed descriptor gives to the link at position \<open>j\<close>.\<close>

lemma update_topology_json_link:
  assumes run: "update_topology_json topo n pa = Inr (topo', pa')"
    and j: "j < length (declared_interfaces topo)"
    and peer: "link_peer (snd (declared_interfaces topo ! j)) = Some r"
  shows "\<exists>p. port_assignments pa'
               (min n r, max n r, int (links_before r j (declared_interfaces topo))) = Some p \<and>
             rewritten_with n r p (snd (declared_interfaces topo ! j))
               (snd (output_interfaces topo' ! j))"
proof -
  have "declared_interfaces topo \<noteq> []" using j by auto
  then have "py_in ''border_routers'' topo = Inr True" by (rule declared_interfaces_nonempty)
  from update_topology_json_Inr [OF run this] obtain ifs' lc where
    pr: "process_interfaces n (declared_interfaces topo) (Map.empty, pa) = Inr (ifs', lc, pa')"
    and out: "output_interfaces topo' = ifs'"
    by blast
  show ?thesis
    using process_interfaces_nth [OF pr j] peer out by (simp add: get_default_def)
qed

lemma process_interface_reachable:
  assumes "process_interface n d (lc, pa) = Inr (d', lc', pa')" and "allocator_reachable pa"
  shows "allocator_reachable pa'"
proof (cases "link_peer d")
  case None
  then show ?thesis using process_interface_Inr [OF assms(1)] assms(2) by simp
next
  case (Some r)
  then obtain i p where "assign_link n r lc pa = (i, p, lc', pa')"
    using process_interface_Inr [OF assms(1)] by auto
  then have "get_port pa n r i = (p, pa')" by (rule assign_link_eq)
  then have "pa' = snd (get_port pa n r i)" by simp
  then show ?thesis using assms(2) by (simp add: allocator_reachable.call)
qed

lemma process_interfaces_reachable:
  "process_interfaces n ifs (lc, pa) = Inr (ifs', lc', pa') \<Longrightarrow> allocator_reachable pa \<Longrightarrow>
   allocator_reachable pa'"
proof (induction ifs arbitrary: lc pa ifs')
  case Nil
  then show ?case by simp
next
  case (Cons x ifs)
  obtain iid d where x: "x = (iid, d)" by (cases x)
  from Cons.prems(1) x obtain d' lc1 pa1 rest' where
    h: "process_interface n d (lc, pa) = Inr (d', lc1, pa1)"
    and t: "process_interfaces n ifs (lc1, pa1) = Inr (rest', lc', pa')"
    by (auto simp: ebind_eq_Inr)
  from h Cons.prems(2) have "allocator_reachable pa1" by (rule process_interface_reachable)
  with t show ?case by (rule Cons.IH)
qed

lemma parallel_links_distinct:
  assumes pr: "process_interfaces n ifs (Map.empty, pa) = Inr (ifs', lc', pa')"
    and re: "allocator_reachable pa"
    and j1: "j1 < length ifs" and j2: "j2 < length ifs"
    and p1: "link_peer (snd (ifs ! j1)) = Some r" and p2: "link_peer (snd (ifs ! j2)) = Some r"
    and o1: "links_before r j1 ifs = 0" and o2: "links_before r j2 ifs = 1"
  shows "\<exists>port1 port2. port1 \<noteq> port2 \<and>
           port_assignments pa' (min n r, max n r, 0) = Some port1 \<and>
           port_assignments pa' (min n r, max n r, 1) = Some port2 \<and>
           rewritten_with n r port1 (snd (ifs ! j1)) (snd (ifs' ! j1)) \<and>
           rewritten_with n r port2 (snd (ifs ! j2)) (snd (ifs' ! j2))"
proof -
  from process_interfaces_nth [OF pr j1] p1 o1 obtain q1 where
    q1: "port_assignments pa' (min n r, max n r, 0) = Some q1"
        "rewritten_with n r q1 (snd (ifs ! j1)) (snd (ifs' ! j1))"
    by (auto simp: get_default_def)
  from process_interfaces_nth [OF pr j2] p2 o2 obtain q2 where
    q2: "port_assignments pa' (min n r, max n r, 1) = Some q2"
        "rewritten_with n r q2 (snd (ifs ! j2)) (snd (ifs' ! j2))"
    by (auto simp: get_default_def)
  have "allocator_reachable pa'" using pr re by (rule process_interfaces_reachable)
  then have "inj_on (port_assignments pa') (dom (port_assignments pa'))"
    using reachable_inv by (simp add: allocator_inv_def)
  moreover have "(min n r, max n r, 0) \<in> dom (port_assignments pa')"
    "(min n r, max n r, 1) \<in> dom (port_assignments pa')"
    using q1 q2 by auto
  ultimately have "port_assignments pa' (min n r, max n r, 0)
                     = port_assignments pa' (min n r, max n r, 1) \<Longrightarrow>
                   (min n r, max n r, 0::int) = (min n r, max n r, 1)"
    unfolding inj_on_def by blast
  then have "q1 \<noteq> q2"
    using q1(1) q2(1) by auto
  then show ?thesis using q1 q2 by blast
qed

lemma process_interfaces_counters:
  "process_interfaces n ifs (lc, pa) = Inr (ifs', lc', pa') \<Longrightarrow>
   get_default lc' (min n r, max n r) 0
     = get_default lc (min n r, max n r) 0 + int (links_before r (length ifs) ifs)"
proof (induction ifs arbitrary: lc pa ifs')
  case Nil
  then show ?case by simp
next
  case (Cons x ifs)
  obtain iid d where x: "x = (iid, d)" by (cases x)
  from Cons.prems x obtain d' lc1 pa1 rest' where
    h: "process_interface n d (lc, pa) = Inr (d', lc1, pa1)"
    and t: "process_interfaces n ifs (lc1, pa1) = Inr (rest', lc', pa')"
    by (auto simp: ebind_eq_Inr)
  note hd = process_interface_Inr [OF h]
  have "get_default lc1 (min n r, max n r) 0
          = get_default lc (min n r, max n r) 0 + (if link_peer d = Some r then 1 else 0)"
  proof (cases "link_peer d")
    case None
    then show ?thesis using hd by simp
  next
    case (Some r0)
    then obtain i p0 where "assign_link n r0 lc pa = (i, p0, lc1, pa1)"
      using hd by auto
    then have "i = get_default lc (min n r0, max n r0) 0"
      and "lc1 = lc((min n r0, max n r0) \<mapsto> i + 1)"
      by (rule assign_link_eq)+
    then show ?thesis using Some pair_eq_iff [of n r0 r]
      by (auto simp: get_default_def)
  qed
  then show ?case using Cons.IH [OF t] x by (simp add: links_before_Suc)
qed

lemma link_peer_imp_parsed: "link_peer idata = Some r \<Longrightarrow> parsed_peer idata = Some r"
  by (cases idata) (auto simp: link_peer_def parsed_peer_def split: if_splits)

lemma process_interfaces_append:
  "process_interfaces n (xs @ ys) st =
     ebind (process_interfaces n xs st) (\<lambda>(xs', st1).
     ebind (process_interfaces n ys st1) (\<lambda>(ys', st2). Inr (xs' @ ys', st2)))"
proof (induction xs arbitrary: st)
  case Nil
  show ?case by (cases "process_interfaces n ys st") (auto simp: ebind_def)
next
  case (Cons x xs)
  obtain iid d where x: "x = (iid, d)" by (cases x)
  show ?case using Cons.IH x
    by (auto simp: ebind_def split: sum.splits prod.splits)
qed

lemma malformed_step:
  assumes "idata = PDict d" and "map_of d ''isd_as'' = Some (PStr s)"
    and "extract_node_from_isd_as (PStr s) = Inr None"
  shows "process_interface n idata st = Inr (idata, st)"
  using assms by (cases "map_of d ''underlay''") (simp_all add: process_interface_def)

section \<open>The service configuration files\<close>

lemma ebindE:
  assumes "ebind m f = Inr y"
  obtains x where "m = Inr x" and "f x = Inr y"
  using assms by (auto simp: ebind_eq_Inr)

lemma set_field_Inr:
  "set_field sec key v c = Inr c' \<longleftrightarrow>
     (\<exists>d t. c = PDict d \<and> map_of d sec = Some (PDict t) \<and>
        c' = PDict (AList.update sec (PDict (AList.update key v t)) d))"
  by (auto simp: set_field_def ebind_eq_Inr py_getitem_Inr py_setitem_Inr)

lemma set_in_section_Inr:
  assumes "set_in_section sec key v c = Inr c'"
  shows "(py_in sec c = Inr False \<and> c' = c) \<or>
         (py_in sec c = Inr True \<and>
          (\<exists>d t. c = PDict d \<and> map_of d sec = Some (PDict t) \<and>
             c' = PDict (AList.update sec (PDict (AList.update key v t)) d)))"
proof (cases "py_in sec c")
  case (Inl e)
  then show ?thesis using assms by (simp add: set_in_section_def)
next
  case (Inr b)
  then show ?thesis using assms by (cases b) (auto simp: set_in_section_def set_field_Inr)
qed

lemma set_field_py_in:
  "set_field sec key v c = Inr c' \<Longrightarrow> k \<noteq> sec \<Longrightarrow> py_in k c' = py_in k c"
  by (auto simp: set_field_Inr update_conv')

lemma set_in_section_py_in:
  "set_in_section sec key v c = Inr c' \<Longrightarrow> k \<noteq> sec \<Longrightarrow> py_in k c' = py_in k c"
  using set_in_section_Inr [of sec key v c c'] by (auto simp: update_conv')

lemma set_in_section_value:
  "set_in_section sec key v c = Inr c' \<Longrightarrow> py_in sec c = Inr True \<Longrightarrow>
   config_value sec key c' = Some v"
  using set_in_section_Inr [of sec key v c c'] by (auto simp: config_value_def update_conv')

lemma set_in_section_other_value:
  "set_in_section sec key v c = Inr c' \<Longrightarrow> s \<noteq> sec \<Longrightarrow>
   config_value s k c' = config_value s k c"
  using set_in_section_Inr [of sec key v c c'] by (auto simp: config_value_def update_conv')

lemma del_section_py_in:
  "del_section sec c = Inr c' \<Longrightarrow> k \<noteq> sec \<Longrightarrow> py_in k c' = py_in k c"
  by (rule del_section_lookup)

lemma del_section_absent: "del_section sec c = Inr c' \<Longrightarrow> py_in sec c' = Inr False"
  using del_section_Inr by blast

lemma general_keep:
  assumes c2: "(if g then ebind (set_field ''general'' ''config_dir'' (PStr ''/etc/scion/'') c1)
                          (set_field ''general'' ''id'' (PStr ''br''))
              else Inr c1) = Inr c2" and k: "k \<noteq> ''general''"
  shows "py_in k c2 = py_in k c1"
proof (cases g)
  case True
  then obtain m where m: "set_field ''general'' ''config_dir'' (PStr ''/etc/scion/'') c1 = Inr m"
    and m2: "set_field ''general'' ''id'' (PStr ''br'') m = Inr c2"
    using c2 by (auto elim: ebindE)
  have "py_in k m = py_in k c1" using m k by (rule set_field_py_in)
  moreover have "py_in k c2 = py_in k m" using m2 k by (rule set_field_py_in)
  ultimately show ?thesis by simp
next
  case False
  then show ?thesis using c2 by simp
qed

lemma update_br_toml_Inr:
  assumes "update_br_toml c n = Inr c'"
  shows "py_in ''metrics'' c' = Inr False"
    and "py_in ''api'' c = Inr True \<Longrightarrow>
         config_value ''api'' ''addr'' c' = Some (PStr (''10.0.0.'' @ str_int n @ '':31442''))"
proof -
  from assms obtain c1 g c2 where
    c1: "del_section ''metrics'' c = Inr c1"
    and g: "py_in ''general'' c1 = Inr g"
    and c2: "(if g then ebind (set_field ''general'' ''config_dir'' (PStr ''/etc/scion/'') c1)
                          (set_field ''general'' ''id'' (PStr ''br''))
              else Inr c1) = Inr c2"
    and c3: "set_in_section ''api'' ''addr''
               (PStr (''10.0.0.'' @ str_int n @ '':31442'')) c2 = Inr c'"
    unfolding update_br_toml_def node_to_ip_def by (elim ebindE) blast
  have keep: "\<And>k. k \<noteq> ''general'' \<Longrightarrow> py_in k c2 = py_in k c1"
    using c2 by (rule general_keep)
  have "py_in ''metrics'' c2 = Inr False"
    using keep [of "''metrics''"] del_section_absent [OF c1] by simp
  then show "py_in ''metrics'' c' = Inr False"
    using set_in_section_py_in [OF c3, of "''metrics''"] by simp
  assume "py_in ''api'' c = Inr True"
  then have "py_in ''api'' c2 = Inr True"
    using keep [of "''api''"] del_section_py_in [OF c1, of "''api''"] by simp
  with c3 show "config_value ''api'' ''addr'' c' = Some (PStr (''10.0.0.'' @ str_int n @ '':31442''))"
    by (rule set_in_section_value)
qed

lemma update_cs_toml_Inr:
  assumes "update_cs_toml c n = Inr c'"
  shows "py_in ''metrics'' c' = Inr False" and "py_in ''tracing'' c' = Inr False"
    and "py_in ''api'' c = Inr True \<Longrightarrow>
         config_value ''api'' ''addr'' c' = Some (PStr (''10.0.0.'' @ str_int n @ '':31152''))"
proof -
  from assms obtain c1 c2 c3 c4 c5 c6 where
    c1: "del_section ''metrics'' c = Inr c1"
    and c2: "del_section ''tracing'' c1 = Inr c2"
    and c3: "set_in_section ''general'' ''config_dir'' (PStr ''/etc/scion/'') c2 = Inr c3"
    and c4: "set_in_section ''trust_db'' ''connection'' (PStr ''/etc/scion/trust.db'') c3 = Inr c4"
    and c5: "set_in_section ''beacon_db'' ''connection'' (PStr ''/etc/scion/beacon.db'') c4 = Inr c5"
    and c6: "set_in_section ''path_db'' ''connection'' (PStr ''/etc/scion/path.db'') c5 = Inr c6"
    and c7: "set_in_section ''api'' ''addr''
               (PStr (''10.0.0.'' @ str_int n @ '':31152'')) c6 = Inr c'"
    unfolding update_cs_toml_def node_to_ip_def by (elim ebindE) blast
  have keep: "\<And>k. k \<notin> {''general'', ''trust_db'', ''beacon_db'', ''path_db''} \<Longrightarrow>
                py_in k c6 = py_in k c2"
    using set_in_section_py_in [OF c3] set_in_section_py_in [OF c4]
      set_in_section_py_in [OF c5] set_in_section_py_in [OF c6] by simp
  have "py_in ''metrics'' c2 = Inr False"
    using del_section_absent [OF c1] del_section_py_in [OF c2, of "''metrics''"] by simp
  then show "py_in ''metrics'' c' = Inr False"
    using keep [of "''metrics''"] set_in_section_py_in [OF c7, of "''metrics''"] by simp
  show "py_in ''tracing'' c' = Inr False"
    using del_section_absent [OF c2] keep [of "''tracing''"]
      set_in_section_py_in [OF c7, of "''tracing''"] by simp
  assume "py_in ''api'' c = Inr True"
  then have "py_in ''api'' c6 = Inr True"
    using keep [of "''api''"] del_section_py_in [OF c1, of "''api''"]
      del_section_py_in [OF c2, of "''api''"] by simp
  with c7 show "config_value ''api'' ''addr'' c' = Some (PStr (''10.0.0.'' @ str_int n @ '':31152''))"
    by (rule set_in_section_value)
qed

lemma update_sd_toml_Inr:
  assumes "update_sd_toml c n = Inr c'"
  shows "py_in ''metrics'' c' = Inr False" and "py_in ''tracing'' c' = Inr False"
    and "py_in ''api'' c = Inr True \<Longrightarrow>
         config_value ''api'' ''addr'' c' = Some (PStr (''10.0.0.'' @ str_int n @ '':30955''))"
    and "py_in ''sd'' c = Inr True \<Longrightarrow>
         config_value ''sd'' ''address'' c' = Some (PStr (''10.0.0.'' @ str_int n @ '':30255''))"
proof -
  from assms obtain c1 c2 c3 c4 c5 c6 where
    c1: "del_section ''metrics'' c = Inr c1"
    and c2: "del_section ''tracing'' c1 = Inr c2"
    and c3: "set_in_section ''general'' ''config_dir'' (PStr ''/etc/scion/'') c2 = Inr c3"
    and c4: "set_in_section ''trust_db'' ''connection'' (PStr ''/etc/scion/trust.db'') c3 = Inr c4"
    and c5: "set_in_section ''path_db'' ''connection'' (PStr ''/etc/scion/path.db'') c4 = Inr c5"
    and c6: "set_in_section ''sd'' ''address''
               (PStr (''10.0.0.'' @ str_int n @ '':30255'')) c5 = Inr c6"
    and c7: "set_in_section ''api'' ''addr''
               (PStr (''10.0.0.'' @ str_int n @ '':30955'')) c6 = Inr c'"
    unfolding update_sd_toml_def node_to_ip_def by (elim ebindE) blast
  have keep: "\<And>k. k \<notin> {''general'', ''trust_db'', ''path_db''} \<Longrightarrow>
                py_in k c5 = py_in k c2"
    using set_in_section_py_in [OF c3] set_in_section_py_in [OF c4]
      set_in_section_py_in [OF c5] by simp
  have "py_in ''metrics'' c2 = Inr False"
    using del_section_absent [OF c1] del_section_py_in [OF c2, of "''metrics''"] by simp
  then show "py_in ''metrics'' c' = Inr False"
    using keep [of "''metrics''"] set_in_section_py_in [OF c6, of "''metrics''"]
      set_in_section_py_in [OF c7, of "''metrics''"] by simp
  show "py_in ''tracing'' c' = Inr False"
    using del_section_absent [OF c2] keep [of "''tracing''"]
      set_in_section_py_in [OF c6, of "''tracing''"]
      set_in_section_py_in [OF c7, of "''tracing''"] by simp
  {
    assume "py_in ''api'' c = Inr True"
    then have "py_in ''api'' c6 = Inr True"
      using keep [of "''api''"] del_section_py_in [OF c1, of "''api''"]
        del_section_py_in [OF c2, of "''api''"] set_in_section_py_in [OF c6, of "''api''"]
      by simp
    with c7 show "config_value ''api'' ''addr'' c' = Some (PStr (''10.0.0.'' @ str_int n @ '':30955''))"
      by (rule set_in_section_value)
  }
  {
    assume "py_in ''sd'' c = Inr True"
    then have "py_in ''sd'' c5 = Inr True"
      using keep [of "''sd''"] del_section_py_in [OF c1, of "''sd''"]
        del_section_py_in [OF c2, of "''sd''"] by simp
    with c6 have "config_value ''sd'' ''address'' c6 = Some (PStr (''10.0.0.'' @ str_int n @ '':30255''))"
      by (rule set_in_section_value)
    then show "config_value ''sd'' ''address'' c' = Some (PStr (''10.0.0.'' @ str_int n @ '':30255''))"
      using set_in_section_other_value [OF c7, of "''sd''" "''address''"] by simp
  }
qed

lemma consolidate_py_in:
  assumes "consolidate_border_routers n t pa = Inr (t', pa')" and "k \<noteq> ''border_routers''"
  shows "py_in k t' = py_in k t"
proof (cases "py_in ''border_routers'' t = Inr True")
  case True
  from consolidate_Inr [OF assms(1) True] show ?thesis
    using assms(2) by (auto simp: update_conv')
next
  case False
  then show ?thesis
  proof (cases "py_in ''border_routers'' t")
    case (Inl e)
    then show ?thesis using assms(1) by (simp add: consolidate_border_routers_def)
  next
    case (Inr b)
    then have "b = False" using False by (cases b) simp_all
    then show ?thesis using assms(1) Inr by (simp add: consolidate_border_routers_def)
  qed
qed

lemma update_topology_json_marker:
  assumes "update_topology_json t n pa = Inr (t', pa')"
  shows "py_in ''test_dispatcher'' t' = Inr False"
proof -
  from assms obtain t1 t2 t3 where
    t1: "del_section ''test_dispatcher'' t = Inr t1"
    and t2: "rewrite_services n ''control_service'' t1 = Inr t2"
    and t3: "rewrite_services n ''discovery_service'' t2 = Inr t3"
    and con: "consolidate_border_routers n t3 pa = Inr (t', pa')"
    unfolding update_topology_json_def by (elim ebindE) blast
  show ?thesis
    using del_section_absent [OF t1]
      rewrite_services_lookup(2) [OF t2, of "''test_dispatcher''"]
      rewrite_services_lookup(2) [OF t3, of "''test_dispatcher''"]
      consolidate_py_in [OF con, of "''test_dispatcher''"] by simp
qed

section \<open>Service addresses\<close>

lemma split_on_nonempty [simp]: "split_on c s \<noteq> []"
  by (induction s) (auto split: list.splits)

lemma split_on_no_sep: "c \<notin> set s \<Longrightarrow> split_on c s = [s]"
  by (induction s) auto

lemma split_on_first: "c \<notin> set h \<Longrightarrow> split_on c (h @ c # rest) = h # split_on c rest"
  by (induction h) auto

lemma py_split_host_port:
  "CHR '':'' \<notin> set host \<Longrightarrow> CHR '':'' \<notin> set port \<Longrightarrow>
   py_split_colon_1 (PStr (host @ '':'' @ port)) = Inr port"
  by (simp add: split_on_first split_on_no_sep)

lemma rewrite_service_addr_absent:
  "py_in ''addr'' sd = Inr False \<Longrightarrow> rewrite_service_addr n sd = Inr sd"
  by (simp add: rewrite_service_addr_def)

lemma rewrite_service_addr_host_port:
  assumes "sd = PDict d" and "map_of d ''addr'' = Some (PStr (host @ '':'' @ port))"
    and "CHR '':'' \<notin> set host" and "CHR '':'' \<notin> set port"
  shows "rewrite_service_addr n sd
           = Inr (PDict (AList.update ''addr'' (PStr (''10.0.0.'' @ str_int n @ '':'' @ port)) d))"
  using assms py_split_host_port [of host port]
  by (simp add: rewrite_service_addr_def addr_fmt_def node_to_ip_def)

lemma rewrite_services_same:
  assumes "rewrite_services n table t = Inr t1" and "py_getitem t table = Inr (PDict es)"
  shows "\<exists>es'. rewrite_service_entries n es = Inr es' \<and> py_getitem t1 table = Inr (PDict es')"
proof -
  from assms(2) obtain d where d: "t = PDict d" "map_of d table = Some (PDict es)"
    by (auto simp: py_getitem_Inr)
  then have "py_in table t = Inr True" by simp
  with rewrite_services_Inr [OF assms(1)] d show ?thesis
    by (auto simp: update_conv')
qed

lemma consolidate_getitem:
  assumes "consolidate_border_routers n t pa = Inr (t', pa')" and "k \<noteq> ''border_routers''"
  shows "py_getitem t' k = py_getitem t k"
proof (cases "py_in ''border_routers'' t = Inr True")
  case True
  from consolidate_Inr [OF assms(1) True] show ?thesis
    using assms(2) by (auto simp: update_conv')
next
  case False
  then show ?thesis
  proof (cases "py_in ''border_routers'' t")
    case (Inl e)
    then show ?thesis using assms(1) by (simp add: consolidate_border_routers_def)
  next
    case (Inr b)
    then have "b = False" using False by (cases b) simp_all
    then show ?thesis using assms(1) Inr by (simp add: consolidate_border_routers_def)
  qed
qed

lemma update_topology_json_services:
  assumes run: "update_topology_json topo n pa = Inr (topo', pa')"
    and tab: "table = ''control_service'' \<or> table = ''discovery_service''"
    and es: "py_getitem topo table = Inr (PDict es)"
  shows "\<exists>es'. rewrite_service_entries n es = Inr es' \<and> py_getitem topo' table = Inr (PDict es')"
proof -
  from run obtain t1 t2 t3 where
    t1: "del_section ''test_dispatcher'' topo = Inr t1"
    and t2: "rewrite_services n ''control_service'' t1 = Inr t2"
    and t3: "rewrite_services n ''discovery_service'' t2 = Inr t3"
    and con: "consolidate_border_routers n t3 pa = Inr (topo', pa')"
    unfolding update_topology_json_def by (elim ebindE) blast
  have ne: "table \<noteq> ''test_dispatcher''" "table \<noteq> ''border_routers''" using tab by auto
  have g1: "py_getitem t1 table = Inr (PDict es)"
    using del_section_lookup(1) [OF t1 ne(1)] es by simp
  have last: "py_getitem topo' table = py_getitem t3 table"
    using con ne(2) by (rule consolidate_getitem)
  from tab show ?thesis
  proof
    assume c: "table = ''control_service''"
    from rewrite_services_same [OF t2] g1 c obtain es' where
      e: "rewrite_service_entries n es = Inr es'" "py_getitem t2 table = Inr (PDict es')"
      by auto
    have "py_getitem t3 table = py_getitem t2 table"
      using rewrite_services_lookup(1) [OF t3, of table] c by simp
    then show ?thesis using e last by auto
  next
    assume c: "table = ''discovery_service''"
    have "py_getitem t2 table = Inr (PDict es)"
      using rewrite_services_lookup(1) [OF t2, of table] c g1 by simp
    with rewrite_services_same [OF t3] c obtain es' where
      "rewrite_service_entries n es = Inr es'" "py_getitem t3 table = Inr (PDict es')"
      by auto
    then show ?thesis using last by auto
  qed
qed

section \<open>Consolidated interfaces\<close>

lemma add_interfaces_Cons:
  "add_interfaces acc ((k, v) # xs) = add_interfaces (AList.update k v acc) xs"
  by (simp add: add_interfaces_def)

lemma add_interfaces_append:
  "add_interfaces acc (xs @ ys) = add_interfaces (add_interfaces acc xs) ys"
  by (simp add: add_interfaces_def)

lemma add_interfaces_keys:
  "fst ` set (add_interfaces acc xs) = fst ` set acc \<union> fst ` set xs"
proof (induction xs arbitrary: acc)
  case Nil
  show ?case by simp
next
  case (Cons x xs)
  obtain k v where x: "x = (k, v)" by (cases x)
  show ?case using Cons.IH [of "AList.update k v acc"] x
    by (auto simp: add_interfaces_Cons dom_update)
qed

lemma add_interfaces_map_of:
  "map_of (add_interfaces acc xs) = map_of acc ++ map_of (rev xs)"
proof (induction xs arbitrary: acc)
  case Nil
  show ?case by simp
next
  case (Cons x xs)
  obtain k v where x: "x = (k, v)" by (cases x)
  have "map_of (add_interfaces acc (x # xs)) = map_of (AList.update k v acc) ++ map_of (rev xs)"
    using Cons.IH [of "AList.update k v acc"] x by (simp add: add_interfaces_Cons)
  also have "\<dots> = (map_of acc)(k \<mapsto> v) ++ map_of (rev xs)"
    by (simp only: update_conv')
  also have "\<dots> = map_of acc ++ ([k \<mapsto> v] ++ map_of (rev xs))"
    by (simp add: map_add_assoc [symmetric] map_add_upd)
  also have "\<dots> = map_of acc ++ map_of (rev (x # xs))"
    using x by simp
  finally show ?case .
qed

lemma add_interfaces_distinct:
  "distinct (map fst acc) \<Longrightarrow> distinct (map fst (add_interfaces acc xs))"
proof (induction xs arbitrary: acc)
  case Nil
  then show ?case by simp
next
  case (Cons x xs)
  obtain k v where x: "x = (k, v)" by (cases x)
  show ?case using Cons.IH [of "AList.update k v acc"] Cons.prems x
    by (simp add: add_interfaces_Cons distinct_update)
qed

lemma update_fresh: "k \<notin> fst ` set acc \<Longrightarrow> AList.update k v acc = acc @ [(k, v)]"
  by (induction acc) auto

lemma add_interfaces_fresh:
  "distinct (map fst xs) \<Longrightarrow> fst ` set acc \<inter> fst ` set xs = {} \<Longrightarrow>
   add_interfaces acc xs = acc @ xs"
proof (induction xs arbitrary: acc)
  case Nil
  show ?case by simp
next
  case (Cons x xs)
  obtain k v where x: "x = (k, v)" by (cases x)
  have k: "k \<notin> fst ` set acc" using Cons.prems(2) x by auto
  have "fst ` set (acc @ [(k, v)]) \<inter> fst ` set xs = {}"
    using Cons.prems x by (auto simp: image_iff)
  moreover have "distinct (map fst xs)" using Cons.prems(1) by simp
  ultimately have "add_interfaces (acc @ [(k, v)]) xs = (acc @ [(k, v)]) @ xs"
    by (rule Cons.IH [rotated])
  then show ?case using k x by (simp add: add_interfaces_Cons update_fresh)
qed

lemma foldl_add_interfaces:
  "foldl add_interfaces acc xss = add_interfaces acc (concat xss)"
  by (induction xss arbitrary: acc) (simp_all add: add_interfaces_append)

lemma declared_interfaces_all: "declared_interfaces topo = add_interfaces [] (all_declared topo)"
  by (simp add: declared_interfaces_def all_declared_def foldl_add_interfaces)

lemma declared_interfaces_keys:
  "fst ` set (declared_interfaces topo)
     = (\<Union>br\<in>set (border_router_entries topo). fst ` set (br_interfaces (snd br)))"
  by (auto simp: declared_interfaces_all add_interfaces_keys all_declared_def)

lemma declared_interfaces_last_wins:
  "map_of (declared_interfaces topo) = map_of (rev (all_declared topo))"
  by (simp add: declared_interfaces_all add_interfaces_map_of)

lemma declared_interfaces_distinct: "distinct (map fst (declared_interfaces topo))"
  by (simp add: declared_interfaces_all add_interfaces_distinct)

lemma declared_interfaces_no_collision:
  "distinct (map fst (all_declared topo)) \<Longrightarrow> declared_interfaces topo = all_declared topo"
  using add_interfaces_fresh [of "all_declared topo" "[]"]
  by (simp add: declared_interfaces_all)

lemma length_all_declared:
  "length (all_declared topo)
     = sum_list (map (\<lambda>br. length (br_interfaces (snd br))) (border_router_entries topo))"
  by (simp add: all_declared_def length_concat comp_def)

section \<open>The node mapping\<close>

lemma build_as_pairs:
  "build_as_to_node_mapping entries =
     foldl (\<lambda>as_to_node (as_num, as_name).
              AList.update as_name (''as_'' @ str_int as_num) as_to_node)
       [] (sort (as_pairs entries))"
  by (simp add: build_as_to_node_mapping_def as_pairs_def Let_def)

lemma as_pairs_map:
  "as_pairs zs =
     map (\<lambda>d. (the (extract_as_number (fst d)), fst d))
       (filter (\<lambda>d. snd d \<and> starts_with ''AS'' (fst d) \<and> extract_as_number (fst d) \<noteq> None) zs)"
  unfolding as_pairs_def by (induction zs) (auto split: option.splits)

lemma mset_as_pairs: "mset xs = mset ys \<Longrightarrow> mset (as_pairs xs) = mset (as_pairs ys)"
  by (simp add: as_pairs_map)

lemma sort_mset_cong: "mset xs = mset ys \<Longrightarrow> sort xs = sort ys"
  by (rule properties_for_sort) simp_all

lemma build_perm:
  assumes "mset xs = mset ys"
  shows "build_as_to_node_mapping xs = build_as_to_node_mapping ys"
proof -
  have "sort (as_pairs xs) = sort (as_pairs ys)"
    using assms by (intro sort_mset_cong mset_as_pairs)
  then show ?thesis by (simp only: build_as_pairs)
qed

lemma set_as_pairs:
  "set (as_pairs entries) =
     {(num, name). (name, True) \<in> set entries \<and> starts_with ''AS'' name \<and>
                   extract_as_number name = Some num}"
  by (auto simp: as_pairs_def split: option.splits)

lemma foldl_update_keys:
  "fst ` set (foldl (\<lambda>m (num, name). AList.update name (f num) m) acc ps)
     = fst ` set acc \<union> snd ` set ps"
proof (induction ps arbitrary: acc)
  case Nil
  show ?case by simp
next
  case (Cons p ps)
  obtain num name where p: "p = (num, name)" by (cases p)
  show ?case using Cons.IH [of "AList.update name (f num) acc"] p
    by (auto simp: dom_update)
qed

lemma build_keys:
  "fst ` set (build_as_to_node_mapping entries) =
     {name. (name, True) \<in> set entries \<and> starts_with ''AS'' name \<and>
            extract_as_number name \<noteq> None}"
proof -
  have "fst ` set (build_as_to_node_mapping entries) = snd ` set (as_pairs entries)"
    using foldl_update_keys [of "\<lambda>num. ''as_'' @ str_int num" "[]" "sort (as_pairs entries)"]
    by (simp add: build_as_pairs)
  then show ?thesis by (auto simp: set_as_pairs image_iff)
qed

lemma foldl_update_fresh:
  "distinct (map snd ps) \<Longrightarrow> fst ` set acc \<inter> snd ` set ps = {} \<Longrightarrow>
   foldl (\<lambda>m (num, name). AList.update name (f num) m) acc ps
     = acc @ map (\<lambda>p. (snd p, f (fst p))) ps"
proof (induction ps arbitrary: acc)
  case Nil
  show ?case by simp
next
  case (Cons p ps)
  obtain num name where p: "p = (num, name)" by (cases p)
  have k: "name \<notin> fst ` set acc" using Cons.prems(2) p by auto
  have d: "distinct (map snd ps)" using Cons.prems(1) by simp
  have "fst ` set (acc @ [(name, f num)]) \<inter> snd ` set ps = {}"
    using Cons.prems p by (auto simp: image_iff)
  with d have "foldl (\<lambda>m (num, name). AList.update name (f num) m) (acc @ [(name, f num)]) ps
      = (acc @ [(name, f num)]) @ map (\<lambda>p. (snd p, f (fst p))) ps"
    by (rule Cons.IH)
  then show ?case using k p by (simp add: update_fresh)
qed

lemma distinct_as_pairs_names:
  assumes "distinct (map fst entries)"
  shows "distinct (map snd (as_pairs entries))"
proof -
  have "map snd (as_pairs entries) =
          map fst (filter (\<lambda>d. snd d \<and> starts_with ''AS'' (fst d) \<and>
                                extract_as_number (fst d) \<noteq> None) entries)"
    unfolding as_pairs_def by (induction entries) (auto split: option.splits)
  then show ?thesis using assms by (simp add: distinct_map_filter)
qed

lemma sorted_fst: "sorted (ps :: (int \<times> string) list) \<Longrightarrow> sorted (map fst ps)"
  by (induction ps) (auto simp: less_eq_prod_def)

lemma link_peer_iff:
  "link_peer idata = Some r \<longleftrightarrow> has_underlay idata \<and> parsed_peer idata = Some r"
  by (cases idata) (auto simp: link_peer_def has_underlay_def parsed_peer_def)

lemma link_peer_None_iff:
  "link_peer idata = None \<longleftrightarrow> \<not> has_underlay idata \<or> parsed_peer idata = None"
  by (cases idata) (auto simp: link_peer_def has_underlay_def parsed_peer_def)

lemma links_before_underlay:
  "links_before r j ifs
     = length (filter (\<lambda>x. has_underlay (snd x) \<and> peer_in_pair n (min n r, max n r) (snd x))
                 (take j ifs))"
proof -
  have eq: "\<And>d. (link_peer d = Some r)
               = (has_underlay d \<and> peer_in_pair n (min n r, max n r) d)"
    using pair_eq_iff [of n _ r]
    by (auto simp: link_peer_iff peer_in_pair_def split: option.splits)
  show ?thesis by (simp add: links_before_def eq)
qed

section \<open>Evaluating the examples\<close>

lemmas eval_defs =
  update_topology_json_def del_section_def rewrite_services_def rewrite_service_addr_def
  consolidate_border_routers_def add_interfaces_def process_interface_def assign_link_def
  get_default_def get_port_def set_underlay_addr_def addr_fmt_def node_to_ip_def
  str_int_def str_nat.simps digit_chars_def search_suffix_number_def is_digit_def
  int_of_digits_def digit_val_def main_allocator_def PortAllocator_init_def

lemmas notion_defs =
  declared_interfaces_def output_interfaces_def border_router_entries_def br_interfaces_def
  br_internal_addr_def link_peer_def links_before_def underlay_addr_def add_interfaces_def
  search_suffix_number_def is_digit_def digit_chars_def int_of_digits_def digit_val_def

lemma ex_run_110:
  "update_topology_json ex_topology_110 110 main_allocator = Inr (ex_output_110, ex_allocator_1)"
  by (simp add: ex_topology_110_def ex_output_110_def ex_allocator_1_def eval_defs)

lemma ex_run_111:
  "update_topology_json ex_topology_111 111 ex_allocator_1 = Inr (ex_output_111, ex_allocator_1)"
  by (simp add: ex_topology_111_def ex_output_111_def ex_allocator_1_def eval_defs)

lemma ex_allocator_1_reachable: "allocator_reachable ex_allocator_1"
proof -
  have "snd (get_port main_allocator 110 111 0) = ex_allocator_1"
    by (simp add: ex_allocator_1_def eval_defs)
  then show ?thesis
    using allocator_reachable.call [OF allocator_reachable.start, of 110 111 0] by simp
qed

lemma ex_run_parallel:
  "process_interfaces 110 ex_parallel_interfaces (Map.empty, ex_allocator_1)
     = Inr (ex_parallel_output, [(110, 112) \<mapsto> 2], ex_allocator_3)"
  by (simp add: ex_parallel_interfaces_def ex_parallel_output_def ex_allocator_1_def
      ex_allocator_3_def eval_defs)

lemma ex_run_mixed:
  "update_topology_json ex_mixed_topology 110 main_allocator
     = Inr (ex_mixed_topology_output, ex_allocator_2)"
  by (simp add: ex_mixed_topology_def ex_mixed_topology_output_def ex_mixed_interfaces_def
      ex_mixed_output_def ex_malformed_interface_def ex_allocator_2_def eval_defs)

lemma ex_run_br: "update_br_toml ex_br_config 110 = Inr ex_br_output"
  by (simp add: ex_br_config_def ex_br_output_def update_br_toml_def set_field_def
      set_in_section_def eval_defs)

lemma ex_run_cs: "update_cs_toml ex_cs_config 110 = Inr ex_cs_output"
  by (simp add: ex_cs_config_def ex_cs_output_def update_cs_toml_def set_field_def
      set_in_section_def eval_defs)

lemma ex_run_sd: "update_sd_toml ex_sd_config 110 = Inr ex_sd_output"
  by (simp add: ex_sd_config_def ex_sd_output_def update_sd_toml_def set_field_def
      set_in_section_def eval_defs)

lemma ex_run_marked:
  "update_topology_json ex_marked_topology 110 main_allocator
     = Inr (ex_marked_topology_output, main_allocator)"
  by (simp add: ex_marked_topology_def ex_marked_topology_output_def eval_defs)

lemma ex_run_ipv6_service:
  "update_topology_json ex_ipv6_service_topology 110 main_allocator
     = Inr (ex_ipv6_service_output, main_allocator)"
  by (simp add: ex_ipv6_service_topology_def ex_ipv6_service_output_def eval_defs)

lemma ex_run_ipv6_router:
  "update_topology_json ex_ipv6_router_topology 110 main_allocator
     = Inr (ex_ipv6_router_output, main_allocator)"
  by (simp add: ex_ipv6_router_topology_def ex_ipv6_router_output_def eval_defs)

lemma ex_run_two_routers:
  "update_topology_json ex_two_routers_topology 110 main_allocator
     = Inr (ex_two_routers_output, ex_allocator_two)"
  by (simp add: ex_two_routers_topology_def ex_two_routers_def ex_two_routers_output_def
      ex_two_routers_interfaces_def ex_allocator_two_def eval_defs)

lemma ex_build_listing:
  "build_as_to_node_mapping ex_listing
     = [(''ASff00_0_110'', ''as_110''), (''ASff00_0_111'', ''as_111''),
        (''ASff00_0_112'', ''as_112'')]"
  by (simp add: ex_listing_def build_as_to_node_mapping_def extract_as_number_def
      search_suffix_number_def is_digit_def digit_chars_def int_of_digits_def digit_val_def
      less_eq_prod_def str_int_def str_nat.simps)

lemma ex_run_bare_prefix:
  "process_interfaces 110 (take 1 ex_bare_interfaces) (Map.empty, main_allocator)
     = Inr (take 1 ex_bare_interfaces, Map.empty, main_allocator)"
  by (simp add: ex_bare_interfaces_def eval_defs)

lemma ex_run_bare:
  "update_topology_json ex_bare_topology 110 main_allocator
     = Inr (ex_bare_topology_output, ex_allocator_1)"
  by (simp add: ex_bare_topology_def ex_bare_topology_output_def ex_bare_interfaces_def
      ex_bare_output_def ex_allocator_1_def eval_defs)

lemma ex_run_ordinal_prefix:
  "process_interfaces 110 (take 3 ex_ordinal_interfaces) (Map.empty, main_allocator)
     = Inr (ex_ordinal_prefix_output, [(110, 111) \<mapsto> 1], ex_allocator_1)"
  by (simp add: ex_ordinal_interfaces_def ex_ordinal_prefix_output_def
      ex_malformed_interface_def ex_allocator_1_def eval_defs)

section \<open>The rewritten descriptor for addresses with one colon\<close>

text \<open>
  What \<^verbatim>\<open>update_topology_json\<close> does to the service tables when it returns: the entry
  names and their order stay; an entry without an \<^verbatim>\<open>addr\<close> key is unchanged; for an
  address \<open>host:port\<close> with no colon in \<open>host\<close> or \<open>port\<close> the second field of the
  split is the port, and the entry gets \<open>10.0.0.n:port\<close>.
\<close>

lemma service_addresses_rewritten:
  assumes "update_topology_json topo n pa = Inr (topo', pa')"
    and "table = ''control_service'' \<or> table = ''discovery_service''"
    and "py_getitem topo table = Inr (PDict entries)"
  shows "\<exists>entries'. py_getitem topo' table = Inr (PDict entries') \<and>
           map fst entries' = map fst entries \<and>
           (\<forall>j<length entries.
              (py_in ''addr'' (snd (entries ! j)) = Inr False \<longrightarrow>
                 snd (entries' ! j) = snd (entries ! j)) \<and>
              (\<forall>d host port.
                 snd (entries ! j) = PDict d \<and>
                 map_of d ''addr'' = Some (PStr (host @ '':'' @ port)) \<and>
                 CHR '':'' \<notin> set host \<and> CHR '':'' \<notin> set port \<longrightarrow>
                 snd (entries' ! j)
                   = PDict (AList.update ''addr''
                              (PStr (''10.0.0.'' @ str_int n @ '':'' @ port)) d)))"
proof -
  from update_topology_json_services [OF assms] obtain es' where
    r: "rewrite_service_entries n entries = Inr es'"
    and g: "py_getitem topo' table = Inr (PDict es')"
    by blast
  have k: "map fst es' = map fst entries" using r by (rule rewrite_service_entries_keys)
  have "\<forall>j<length entries.
              (py_in ''addr'' (snd (entries ! j)) = Inr False \<longrightarrow>
                 snd (es' ! j) = snd (entries ! j)) \<and>
              (\<forall>d host port.
                 snd (entries ! j) = PDict d \<and>
                 map_of d ''addr'' = Some (PStr (host @ '':'' @ port)) \<and>
                 CHR '':'' \<notin> set host \<and> CHR '':'' \<notin> set port \<longrightarrow>
                 snd (es' ! j)
                   = PDict (AList.update ''addr''
                              (PStr (''10.0.0.'' @ str_int n @ '':'' @ port)) d))"
  proof (intro allI impI conjI)
    fix j assume j: "j < length entries"
    note e = rewrite_service_entries_nth [OF r j]
    {
      assume "py_in ''addr'' (snd (entries ! j)) = Inr False"
      then show "snd (es' ! j) = snd (entries ! j)"
        using e by (simp add: rewrite_service_addr_absent)
    }
    {
      fix d host port
      assume "snd (entries ! j) = PDict d \<and>
                 map_of d ''addr'' = Some (PStr (host @ '':'' @ port)) \<and>
                 CHR '':'' \<notin> set host \<and> CHR '':'' \<notin> set port"
      then show "snd (es' ! j)
                   = PDict (AList.update ''addr''
                              (PStr (''10.0.0.'' @ str_int n @ '':'' @ port)) d)"
        using e rewrite_service_addr_host_port [of "snd (entries ! j)" d host port n] by simp
    }
  qed
  then show ?thesis using g k by blast
qed

lemma service_addresses_rewritten_example:
  "update_topology_json ex_two_routers_topology 110 main_allocator
     = Inr (ex_two_routers_output, ex_allocator_two) \<and>
   py_getitem ex_two_routers_topology ''control_service''
     = Inr (PDict [(''cs1'', PDict [(''addr'', PStr (''127.0.0.18'' @ '':'' @ ''31000''))])]) \<and>
   py_getitem ex_two_routers_topology ''discovery_service''
     = Inr (PDict [(''ds1'', PDict [(''name'', PStr ''ds1'')])]) \<and>
   (\<exists>entries'. py_getitem ex_two_routers_output ''control_service'' = Inr (PDict entries') \<and>
      snd (entries' ! 0)
        = PDict (AList.update ''addr'' (PStr (''10.0.0.'' @ str_int 110 @ '':'' @ ''31000''))
                   [(''addr'', PStr (''127.0.0.18'' @ '':'' @ ''31000''))])) \<and>
   (\<exists>entries'. py_getitem ex_two_routers_output ''discovery_service'' = Inr (PDict entries') \<and>
      snd (entries' ! 0) = PDict [(''name'', PStr ''ds1'')])"
proof -
  have cs: "py_getitem ex_two_routers_topology ''control_service''
     = Inr (PDict [(''cs1'', PDict [(''addr'', PStr (''127.0.0.18'' @ '':'' @ ''31000''))])])"
    by (simp add: ex_two_routers_topology_def)
  have ds: "py_getitem ex_two_routers_topology ''discovery_service''
     = Inr (PDict [(''ds1'', PDict [(''name'', PStr ''ds1'')])])"
    by (simp add: ex_two_routers_topology_def)
  from service_addresses_rewritten [OF ex_run_two_routers _ cs] obtain e1 where
    g1: "py_getitem ex_two_routers_output ''control_service'' = Inr (PDict e1)"
    and a1: "\<forall>j<length [(''cs1'', PDict [(''addr'', PStr (''127.0.0.18'' @ '':'' @ ''31000''))])].
              (\<forall>d host port.
                 snd ([(''cs1'', PDict [(''addr'', PStr (''127.0.0.18'' @ '':'' @ ''31000''))])] ! j)
                   = PDict d \<and>
                 map_of d ''addr'' = Some (PStr (host @ '':'' @ port)) \<and>
                 CHR '':'' \<notin> set host \<and> CHR '':'' \<notin> set port \<longrightarrow>
                 snd (e1 ! j)
                   = PDict (AList.update ''addr''
                              (PStr (''10.0.0.'' @ str_int 110 @ '':'' @ port)) d))"
    by blast
  have "snd ([(''cs1'', PDict [(''addr'', PStr (''127.0.0.18'' @ '':'' @ ''31000''))])] ! 0)
          = PDict [(''addr'', PStr (''127.0.0.18'' @ '':'' @ ''31000''))] \<and>
        map_of [(''addr'', PStr (''127.0.0.18'' @ '':'' @ ''31000''))] ''addr''
          = Some (PStr (''127.0.0.18'' @ '':'' @ ''31000'')) \<and>
        CHR '':'' \<notin> set ''127.0.0.18'' \<and> CHR '':'' \<notin> set ''31000''"
    by simp
  with a1 have v1: "snd (e1 ! 0)
        = PDict (AList.update ''addr'' (PStr (''10.0.0.'' @ str_int 110 @ '':'' @ ''31000''))
                   [(''addr'', PStr (''127.0.0.18'' @ '':'' @ ''31000''))])"
    by (metis length_Cons zero_less_Suc)
  from service_addresses_rewritten [OF ex_run_two_routers _ ds] obtain e2 where
    g2: "py_getitem ex_two_routers_output ''discovery_service'' = Inr (PDict e2)"
    and a2: "\<forall>j<length [(''ds1'', PDict [(''name'', PStr ''ds1'')])].
              (py_in ''addr'' (snd ([(''ds1'', PDict [(''name'', PStr ''ds1'')])] ! j)) = Inr False \<longrightarrow>
                 snd (e2 ! j) = snd ([(''ds1'', PDict [(''name'', PStr ''ds1'')])] ! j))"
    by blast
  have "py_in ''addr'' (snd ([(''ds1'', PDict [(''name'', PStr ''ds1'')])] ! 0)) = Inr False"
    by simp
  with a2 have v2: "snd (e2 ! 0) = PDict [(''name'', PStr ''ds1'')]"
    by (metis length_Cons zero_less_Suc nth_Cons_0 snd_conv)
  show ?thesis using ex_run_two_routers cs ds g1 v1 g2 v2 by blast
qed

text \<open>
  What \<^verbatim>\<open>update_topology_json\<close> does to the border routers when it returns: one entry
  \<^verbatim>\<open>br\<close>; the interface ids of \<open>declared_interfaces\<close> in its order, as a set the union
  of the ids of the original border routers, the last occurrence of an id taken;
  every interface unchanged or with its underlay addresses rewritten by lines 304 to
  312; without a repeated id, the original tables one after the other, their number
  the sum of the original counts; the internal address \<^verbatim>\<open>None\<close> if no border router
  has one, and \<open>10.0.0.n:port\<close> if the last one that has an internal address has
  \<open>host:port\<close> with no colon in \<open>host\<close> or \<open>port\<close>.
\<close>

lemma border_routers_consolidated:
  assumes run: "update_topology_json topo n pa = Inr (topo', pa')"
    and br: "py_in ''border_routers'' topo = Inr True"
  shows "\<exists>c ifs'.
     border_router_entries topo'
       = [(''br'', PDict [(''internal_addr'', c), (''interfaces'', PDict ifs')])] \<and>
     map fst ifs' = map fst (declared_interfaces topo) \<and>
     fst ` set ifs'
       = (\<Union>br\<in>set (border_router_entries topo). fst ` set (br_interfaces (snd br))) \<and>
     map_of (declared_interfaces topo) = map_of (rev (all_declared topo)) \<and>
     (\<forall>j<length ifs'.
        case link_peer (snd (declared_interfaces topo ! j)) of
          None \<Rightarrow> snd (ifs' ! j) = snd (declared_interfaces topo ! j)
        | Some r \<Rightarrow> (\<exists>p. rewritten_with n r p (snd (declared_interfaces topo ! j))
                            (snd (ifs' ! j)))) \<and>
     (distinct (map fst (all_declared topo)) \<longrightarrow>
        map fst ifs' = map fst (all_declared topo) \<and>
        length ifs' = sum_list (map (\<lambda>br. length (br_interfaces (snd br)))
                                  (border_router_entries topo))) \<and>
     ((\<forall>br\<in>set (border_router_entries topo). br_internal_addr (snd br) = None) \<longrightarrow>
        c = PNone) \<and>
     (\<forall>pre name br post host port.
        border_router_entries topo = pre @ (name, br) # post \<and>
        br_internal_addr br = Some (PStr (host @ '':'' @ port)) \<and>
        CHR '':'' \<notin> set host \<and> CHR '':'' \<notin> set port \<and>
        (\<forall>x\<in>set post. br_internal_addr (snd x) = None) \<longrightarrow>
        c = PStr (''10.0.0.'' @ str_int n @ '':'' @ port))"
proof -
  from update_topology_json_Inr [OF run br] obtain c ifs' lc where
    col: "collect_border_routers n (border_router_entries topo) ([], PNone)
            = Inr (declared_interfaces topo, c)"
    and pr: "process_interfaces n (declared_interfaces topo) (Map.empty, pa) = Inr (ifs', lc, pa')"
    and out: "border_router_entries topo'
                = [(''br'', PDict [(''internal_addr'', c), (''interfaces'', PDict ifs')])]"
    by blast
  have keys: "map fst ifs' = map fst (declared_interfaces topo)"
    using pr by (rule process_interfaces_keys)
  then have len: "length ifs' = length (declared_interfaces topo)"
    by (metis length_map)
  have "set (map fst ifs') = set (map fst (declared_interfaces topo))" using keys by simp
  then have kset: "fst ` set ifs'
       = (\<Union>br\<in>set (border_router_entries topo). fst ` set (br_interfaces (snd br)))"
    using declared_interfaces_keys [of topo] by simp
  have vals: "\<forall>j<length ifs'.
        case link_peer (snd (declared_interfaces topo ! j)) of
          None \<Rightarrow> snd (ifs' ! j) = snd (declared_interfaces topo ! j)
        | Some r \<Rightarrow> (\<exists>p. rewritten_with n r p (snd (declared_interfaces topo ! j))
                            (snd (ifs' ! j)))"
  proof (intro allI impI)
    fix j assume "j < length ifs'"
    then have j: "j < length (declared_interfaces topo)" using len by simp
    show "case link_peer (snd (declared_interfaces topo ! j)) of
          None \<Rightarrow> snd (ifs' ! j) = snd (declared_interfaces topo ! j)
        | Some r \<Rightarrow> (\<exists>p. rewritten_with n r p (snd (declared_interfaces topo ! j))
                            (snd (ifs' ! j)))"
      using process_interfaces_nth [OF pr j]
      by (cases "link_peer (snd (declared_interfaces topo ! j))") auto
  qed
  have size: "distinct (map fst (all_declared topo)) \<longrightarrow>
        map fst ifs' = map fst (all_declared topo) \<and>
        length ifs' = sum_list (map (\<lambda>br. length (br_interfaces (snd br)))
                                  (border_router_entries topo))"
    using declared_interfaces_no_collision [of topo] keys len length_all_declared [of topo]
    by auto
  have none: "(\<forall>br\<in>set (border_router_entries topo). br_internal_addr (snd br) = None) \<longrightarrow>
        c = PNone"
    using collect_no_addr [OF col] by blast
  have addr: "\<forall>pre name br post host port.
        border_router_entries topo = pre @ (name, br) # post \<and>
        br_internal_addr br = Some (PStr (host @ '':'' @ port)) \<and>
        CHR '':'' \<notin> set host \<and> CHR '':'' \<notin> set port \<and>
        (\<forall>x\<in>set post. br_internal_addr (snd x) = None) \<longrightarrow>
        c = PStr (''10.0.0.'' @ str_int n @ '':'' @ port)"
  proof (intro allI impI)
    fix pre name br post host port
    assume a: "border_router_entries topo = pre @ (name, br) # post \<and>
        br_internal_addr br = Some (PStr (host @ '':'' @ port)) \<and>
        CHR '':'' \<notin> set host \<and> CHR '':'' \<notin> set port \<and>
        (\<forall>x\<in>set post. br_internal_addr (snd x) = None)"
    then have col': "collect_border_routers n (pre @ (name, br) # post) ([], PNone)
            = Inr (declared_interfaces topo, c)"
      using col by simp
    from collect_last_addr [OF col', of "PStr (host @ '':'' @ port)"] a obtain q where
      "py_split_colon_1 (PStr (host @ '':'' @ port)) = Inr q" "c = PStr (addr_fmt n q)"
      by blast
    then show "c = PStr (''10.0.0.'' @ str_int n @ '':'' @ port)"
      using a py_split_host_port [of host port] by (simp add: addr_fmt_def)
  qed
  from out keys kset declared_interfaces_last_wins [of topo] vals size none addr
  show ?thesis by blast
qed

lemma border_routers_consolidated_example:
  "update_topology_json ex_two_routers_topology 110 main_allocator
     = Inr (ex_two_routers_output, ex_allocator_two) \<and>
   py_in ''border_routers'' ex_two_routers_topology = Inr True \<and>
   length (border_router_entries ex_two_routers_topology) = 2 \<and>
   distinct (map fst (all_declared ex_two_routers_topology)) \<and>
   (\<exists>c ifs'.
      border_router_entries ex_two_routers_output
        = [(''br'', PDict [(''internal_addr'', c), (''interfaces'', PDict ifs')])] \<and>
      map fst ifs' = [''1'', ''2''] \<and>
      length ifs' = 2 \<and>
      c = PStr (''10.0.0.'' @ str_int 110 @ '':'' @ ''31004''))"
proof -
  have br: "py_in ''border_routers'' ex_two_routers_topology = Inr True"
    by (simp add: ex_two_routers_topology_def)
  have ents: "border_router_entries ex_two_routers_topology = ex_two_routers"
    by (simp add: ex_two_routers_topology_def border_router_entries_def)
  have split: "ex_two_routers = [hd ex_two_routers] @ (''br2'', snd (ex_two_routers ! 1)) # []"
    by (simp add: ex_two_routers_def)
  have a: "br_internal_addr (snd (ex_two_routers ! 1)) = Some (PStr (''127.0.0.10'' @ '':'' @ ''31004''))"
    by (simp add: ex_two_routers_def br_internal_addr_def)
  have nc: "CHR '':'' \<notin> set ''127.0.0.10''" "CHR '':'' \<notin> set ''31004''" by simp_all
  have all: "all_declared ex_two_routers_topology
               = [(''1'', PDict [(''isd_as'', PStr ''1-ff00:0:111''),
                             (''underlay'', PDict [(''local'', PStr ''127.0.0.4:50000''),
                                                   (''remote'', PStr ''127.0.0.5:50000'')])]),
                  (''2'', PDict [(''isd_as'', PStr ''1-ff00:0:112''),
                             (''underlay'', PDict [(''local'', PStr ''127.0.0.6:50000''),
                                                   (''remote'', PStr ''127.0.0.7:50000'')])])]"
    by (simp add: all_declared_def ents ex_two_routers_def br_interfaces_def)
  have dist: "distinct (map fst (all_declared ex_two_routers_topology))"
    by (simp add: all)
  have sum: "sum_list (map (\<lambda>br. length (br_interfaces (snd br)))
               (border_router_entries ex_two_routers_topology)) = 2"
    by (simp add: ents ex_two_routers_def br_interfaces_def)
  from border_routers_consolidated [OF ex_run_two_routers br] obtain c ifs' where
    out: "border_router_entries ex_two_routers_output
            = [(''br'', PDict [(''internal_addr'', c), (''interfaces'', PDict ifs')])]"
    and size: "distinct (map fst (all_declared ex_two_routers_topology)) \<longrightarrow>
        map fst ifs' = map fst (all_declared ex_two_routers_topology) \<and>
        length ifs' = sum_list (map (\<lambda>br. length (br_interfaces (snd br)))
                                  (border_router_entries ex_two_routers_topology))"
    and addr: "\<forall>pre name br post host port.
        border_router_entries ex_two_routers_topology = pre @ (name, br) # post \<and>
        br_internal_addr br = Some (PStr (host @ '':'' @ port)) \<and>
        CHR '':'' \<notin> set host \<and> CHR '':'' \<notin> set port \<and>
        (\<forall>x\<in>set post. br_internal_addr (snd x) = None) \<longrightarrow>
        c = PStr (''10.0.0.'' @ str_int 110 @ '':'' @ port)"
    by blast
  have k: "map fst ifs' = [''1'', ''2'']" "length ifs' = 2"
    using size dist sum by (simp_all add: all)
  have "border_router_entries ex_two_routers_topology
          = [hd ex_two_routers] @ (''br2'', snd (ex_two_routers ! 1)) # [] \<and>
        br_internal_addr (snd (ex_two_routers ! 1))
          = Some (PStr (''127.0.0.10'' @ '':'' @ ''31004'')) \<and>
        CHR '':'' \<notin> set ''127.0.0.10'' \<and> CHR '':'' \<notin> set ''31004'' \<and>
        (\<forall>x\<in>set ([] :: (string \<times> pyval) list). br_internal_addr (snd x) = None)"
    using ents split a nc by simp
  with addr have c: "c = PStr (''10.0.0.'' @ str_int 110 @ '':'' @ ''31004'')"
    by blast
  have len: "length (border_router_entries ex_two_routers_topology) = 2"
    by (simp add: ents ex_two_routers_def)
  have "border_router_entries ex_two_routers_output
          = [(''br'', PDict [(''internal_addr'', c), (''interfaces'', PDict ifs')])] \<and>
        map fst ifs' = [''1'', ''2''] \<and> length ifs' = 2 \<and>
        c = PStr (''10.0.0.'' @ str_int 110 @ '':'' @ ''31004'')"
    using out k c by (intro conjI)
  then have "\<exists>c ifs'.
      border_router_entries ex_two_routers_output
        = [(''br'', PDict [(''internal_addr'', c), (''interfaces'', PDict ifs')])] \<and>
      map fst ifs' = [''1'', ''2''] \<and>
      length ifs' = 2 \<and>
      c = PStr (''10.0.0.'' @ str_int 110 @ '':'' @ ''31004'')"
    by (intro exI)
  with ex_run_two_routers br len dist show ?thesis by (intro conjI)
qed

section \<open>The claims\<close>

text \<open>
  C2. \<^verbatim>\<open>get_port\<close> is idempotent and does not depend on the order of the two nodes:
  from any allocator state and for any two nodes and link index, a second call with
  the same link index and the same two nodes, in either order, returns the port the
  first call returned and leaves the allocator as the first call left it.
\<close>

theorem get_port_idempotent:
  "get_port (snd (get_port pa a b i)) a b i = get_port pa a b i \<and>
   get_port (snd (get_port pa a b i)) b a i = get_port pa a b i"
proof -
  obtain p pa' where r: "get_port pa a b i = (p, pa')" by (cases "get_port pa a b i")
  have st: "port_assignments pa' (min a b, max a b, i) = Some p"
    using get_port_stored [of pa a b i] r by simp
  have "get_port pa' a b i = (p, pa')" using st by (rule get_port_hit)
  moreover have "port_assignments pa' (min b a, max b a, i) = Some p"
    using st by (simp add: min.commute max.commute)
  then have "get_port pa' b a i = (p, pa')" by (rule get_port_hit)
  ultimately show ?thesis using r by simp
qed

text \<open>
  C1. Two nodes \<open>a\<close> and \<open>b\<close> are rewritten with one shared allocator: \<open>a\<close> first,
  then (after any further allocations, which only add assignments) \<open>b\<close>. Take an
  interface of \<open>a\<close> whose peer is \<open>b\<close> and an interface of \<open>b\<close> whose peer is \<open>a\<close>,
  both with a local and a remote underlay address, that stand at the same rank among
  their node's links to the other node (the declarations are in mutually consistent
  order: as many links to \<open>b\<close> precede the one in \<open>a\<close>'s descriptor as links to \<open>a\<close>
  precede the other in \<open>b\<close>'s). Then both are rewritten with the same port, and the
  local address of each is the remote address of the other: \<open>10.0.0.a:port\<close> and
  \<open>10.0.0.b:port\<close>. Since the statement is symmetric in the two nodes, the order in
  which they are processed does not matter.
\<close>

theorem link_endpoints_agree:
  assumes runA: "update_topology_json topoA a pa0 = Inr (topoA', pa1)"
    and shared: "port_assignments pa1 \<subseteq>\<^sub>m port_assignments pa2"
    and runB: "update_topology_json topoB b pa2 = Inr (topoB', pa3)"
    and jA: "jA < length (declared_interfaces topoA)"
    and peerA: "link_peer (snd (declared_interfaces topoA ! jA)) = Some b"
    and jB: "jB < length (declared_interfaces topoB)"
    and peerB: "link_peer (snd (declared_interfaces topoB ! jB)) = Some a"
    and order: "links_before b jA (declared_interfaces topoA)
                  = links_before a jB (declared_interfaces topoB)"
    and addrsA: "underlay_addr ''local'' (snd (declared_interfaces topoA ! jA)) \<noteq> None"
                "underlay_addr ''remote'' (snd (declared_interfaces topoA ! jA)) \<noteq> None"
    and addrsB: "underlay_addr ''local'' (snd (declared_interfaces topoB ! jB)) \<noteq> None"
                "underlay_addr ''remote'' (snd (declared_interfaces topoB ! jB)) \<noteq> None"
  shows "\<exists>port.
           underlay_addr ''local'' (snd (output_interfaces topoA' ! jA))
             = Some (PStr (''10.0.0.'' @ str_int a @ '':'' @ str_int port)) \<and>
           underlay_addr ''remote'' (snd (output_interfaces topoA' ! jA))
             = Some (PStr (''10.0.0.'' @ str_int b @ '':'' @ str_int port)) \<and>
           underlay_addr ''local'' (snd (output_interfaces topoB' ! jB))
             = Some (PStr (''10.0.0.'' @ str_int b @ '':'' @ str_int port)) \<and>
           underlay_addr ''remote'' (snd (output_interfaces topoB' ! jB))
             = Some (PStr (''10.0.0.'' @ str_int a @ '':'' @ str_int port))"
proof -
  let ?k = "int (links_before b jA (declared_interfaces topoA))"
  from update_topology_json_link [OF runA jA peerA] obtain p where
    pA: "port_assignments pa1 (min a b, max a b, ?k) = Some p"
    and rwA: "rewritten_with a b p (snd (declared_interfaces topoA ! jA))
                (snd (output_interfaces topoA' ! jA))"
    by blast
  from update_topology_json_link [OF runB jB peerB] obtain q where
    qB: "port_assignments pa3 (min b a, max b a, ?k) = Some q"
    and rwB: "rewritten_with b a q (snd (declared_interfaces topoB ! jB))
                (snd (output_interfaces topoB' ! jB))"
    using order by auto
  have "declared_interfaces topoB \<noteq> []" using jB by auto
  then have "py_in ''border_routers'' topoB = Inr True" by (rule declared_interfaces_nonempty)
  from update_topology_json_Inr [OF runB this] obtain ifs' lc where
    "process_interfaces b (declared_interfaces topoB) (Map.empty, pa2) = Inr (ifs', lc, pa3)"
    by blast
  then have "port_assignments pa2 \<subseteq>\<^sub>m port_assignments pa3" by (rule process_interfaces_mono)
  with shared have "port_assignments pa1 \<subseteq>\<^sub>m port_assignments pa3" by (rule map_le_trans)
  then have "port_assignments pa3 (min a b, max a b, ?k) = Some p"
    using pA by (auto simp: map_le_def dom_def)
  then have "q = p" using qB by (simp add: min.commute max.commute)
  then show ?thesis
    using rewritten_with_addrs [OF rwA addrsA] rewritten_with_addrs [OF rwB addrsB]
    by (auto simp: addr_fmt_def)
qed

theorem link_endpoints_agree_witness:
  "update_topology_json ex_topology_110 110 main_allocator = Inr (ex_output_110, ex_allocator_1) \<and>
   update_topology_json ex_topology_111 111 ex_allocator_1 = Inr (ex_output_111, ex_allocator_1) \<and>
   (\<exists>port.
      underlay_addr ''local'' (snd (output_interfaces ex_output_110 ! 0))
        = Some (PStr (''10.0.0.'' @ str_int 110 @ '':'' @ str_int port)) \<and>
      underlay_addr ''remote'' (snd (output_interfaces ex_output_110 ! 0))
        = Some (PStr (''10.0.0.'' @ str_int 111 @ '':'' @ str_int port)) \<and>
      underlay_addr ''local'' (snd (output_interfaces ex_output_111 ! 0))
        = Some (PStr (''10.0.0.'' @ str_int 111 @ '':'' @ str_int port)) \<and>
      underlay_addr ''remote'' (snd (output_interfaces ex_output_111 ! 0))
        = Some (PStr (''10.0.0.'' @ str_int 110 @ '':'' @ str_int port)))"
proof -
  have jA: "0 < length (declared_interfaces ex_topology_110)"
    by (simp add: ex_topology_110_def notion_defs)
  have peerA: "link_peer (snd (declared_interfaces ex_topology_110 ! 0)) = Some 111"
    by (simp add: ex_topology_110_def notion_defs)
  have jB: "0 < length (declared_interfaces ex_topology_111)"
    by (simp add: ex_topology_111_def notion_defs)
  have peerB: "link_peer (snd (declared_interfaces ex_topology_111 ! 0)) = Some 110"
    by (simp add: ex_topology_111_def notion_defs)
  have order: "links_before 111 0 (declared_interfaces ex_topology_110)
                 = links_before 110 0 (declared_interfaces ex_topology_111)"
    by simp
  have addrsA: "underlay_addr ''local'' (snd (declared_interfaces ex_topology_110 ! 0)) \<noteq> None"
    "underlay_addr ''remote'' (snd (declared_interfaces ex_topology_110 ! 0)) \<noteq> None"
    by (simp_all add: ex_topology_110_def notion_defs)
  have addrsB: "underlay_addr ''local'' (snd (declared_interfaces ex_topology_111 ! 0)) \<noteq> None"
    "underlay_addr ''remote'' (snd (declared_interfaces ex_topology_111 ! 0)) \<noteq> None"
    by (simp_all add: ex_topology_111_def notion_defs)
  show ?thesis
    using ex_run_110 ex_run_111
      link_endpoints_agree [OF ex_run_110 map_le_refl ex_run_111 jA peerA jB peerB order
        addrsA addrsB]
    by simp
qed

text \<open>
  C3. In every allocator state of a run (reached from \<^verbatim>\<open>PortAllocator(base_port=50000)\<close>
  by calls of \<^verbatim>\<open>get_port\<close>): the assignment map is injective, so distinct keys
  \<open>(min node, max node, ordinal)\<close> have distinct ports; the ports in use are exactly
  \<open>50000, ..., next_port - 1\<close>; a key that has a port keeps it and the call changes
  nothing; a key that has none gets \<open>next_port\<close>, larger than every port in use, and
  the counter moves up by one. In particular, when a descriptor is processed, the
  first and the second link to the same peer (ordinals 0 and 1, in the order of
  declaration) are rewritten with the ports of the keys with ordinal 0 and 1, and
  these two ports differ.
\<close>

theorem allocator_injective_monotone:
  assumes "allocator_reachable pa"
  shows "inj_on (port_assignments pa) (dom (port_assignments pa)) \<and>
         50000 \<le> next_port pa \<and>
         ran (port_assignments pa) = {50000 ..< next_port pa} \<and>
         (\<forall>a b i p. port_assignments pa (min a b, max a b, i) = Some p \<longrightarrow>
            get_port pa a b i = (p, pa)) \<and>
         (\<forall>a b i. port_assignments pa (min a b, max a b, i) = None \<longrightarrow>
            fst (get_port pa a b i) = next_port pa \<and>
            next_port (snd (get_port pa a b i)) = next_port pa + 1) \<and>
         (\<forall>n ifs ifs' lc' pa' j1 j2 r.
            process_interfaces n ifs (Map.empty, pa) = Inr (ifs', lc', pa') \<and>
            j1 < length ifs \<and> j2 < length ifs \<and>
            link_peer (snd (ifs ! j1)) = Some r \<and> link_peer (snd (ifs ! j2)) = Some r \<and>
            links_before r j1 ifs = 0 \<and> links_before r j2 ifs = 1 \<longrightarrow>
            (\<exists>port1 port2. port1 \<noteq> port2 \<and>
               port_assignments pa' (min n r, max n r, 0) = Some port1 \<and>
               port_assignments pa' (min n r, max n r, 1) = Some port2 \<and>
               rewritten_with n r port1 (snd (ifs ! j1)) (snd (ifs' ! j1)) \<and>
               rewritten_with n r port2 (snd (ifs ! j2)) (snd (ifs' ! j2))))"
proof -
  have inv: "allocator_inv pa" and base: "base_port pa = 50000"
    using reachable_inv [OF assms] by simp_all
  have 1: "inj_on (port_assignments pa) (dom (port_assignments pa))"
    using inv by (simp add: allocator_inv_def)
  have 2: "50000 \<le> next_port pa" using inv base by (simp add: allocator_inv_def)
  have 3: "ran (port_assignments pa) = {50000 ..< next_port pa}"
    using inv base by (simp add: allocator_inv_def)
  have 4: "\<forall>a b i p. port_assignments pa (min a b, max a b, i) = Some p \<longrightarrow>
            get_port pa a b i = (p, pa)"
    by (simp add: get_port_hit)
  have 5: "\<forall>a b i. port_assignments pa (min a b, max a b, i) = None \<longrightarrow>
            fst (get_port pa a b i) = next_port pa \<and>
            next_port (snd (get_port pa a b i)) = next_port pa + 1"
    by (simp add: get_port_miss)
  have 6: "\<forall>n ifs ifs' lc' pa' j1 j2 r.
            process_interfaces n ifs (Map.empty, pa) = Inr (ifs', lc', pa') \<and>
            j1 < length ifs \<and> j2 < length ifs \<and>
            link_peer (snd (ifs ! j1)) = Some r \<and> link_peer (snd (ifs ! j2)) = Some r \<and>
            links_before r j1 ifs = 0 \<and> links_before r j2 ifs = 1 \<longrightarrow>
            (\<exists>port1 port2. port1 \<noteq> port2 \<and>
               port_assignments pa' (min n r, max n r, 0) = Some port1 \<and>
               port_assignments pa' (min n r, max n r, 1) = Some port2 \<and>
               rewritten_with n r port1 (snd (ifs ! j1)) (snd (ifs' ! j1)) \<and>
               rewritten_with n r port2 (snd (ifs ! j2)) (snd (ifs' ! j2)))"
    using parallel_links_distinct [OF _ assms] by blast
  from 1 2 3 4 5 6 show ?thesis by blast
qed

theorem allocator_injective_monotone_witness:
  "allocator_reachable ex_allocator_1 \<and>
   inj_on (port_assignments ex_allocator_1) (dom (port_assignments ex_allocator_1)) \<and>
   ran (port_assignments ex_allocator_1) = {50000 ..< 50001} \<and>
   get_port ex_allocator_1 111 110 0 = (50000, ex_allocator_1) \<and>
   fst (get_port ex_allocator_1 110 112 0) = 50001 \<and>
   next_port (snd (get_port ex_allocator_1 110 112 0)) = 50002 \<and>
   process_interfaces 110 ex_parallel_interfaces (Map.empty, ex_allocator_1)
     = Inr (ex_parallel_output, [(110, 112) \<mapsto> 2], ex_allocator_3) \<and>
   (\<exists>port1 port2. port1 \<noteq> port2 \<and>
      port_assignments ex_allocator_3 (110, 112, 0) = Some port1 \<and>
      port_assignments ex_allocator_3 (110, 112, 1) = Some port2 \<and>
      rewritten_with 110 112 port1 (snd (ex_parallel_interfaces ! 0)) (snd (ex_parallel_output ! 0)) \<and>
      rewritten_with 110 112 port2 (snd (ex_parallel_interfaces ! 1)) (snd (ex_parallel_output ! 1)))"
proof -
  note inst = allocator_injective_monotone [OF ex_allocator_1_reachable]
  have hit: "port_assignments ex_allocator_1 (min 111 110, max 111 110, 0) = Some 50000"
    by (simp add: ex_allocator_1_def)
  have miss: "port_assignments ex_allocator_1 (min 110 112, max 110 112, 0) = None"
    by (simp add: ex_allocator_1_def)
  have np: "next_port ex_allocator_1 = 50001" by (simp add: ex_allocator_1_def)
  have peers: "link_peer (snd (ex_parallel_interfaces ! 0)) = Some 112"
    "link_peer (snd (ex_parallel_interfaces ! 1)) = Some 112"
    by (simp_all add: ex_parallel_interfaces_def notion_defs)
  have ranks: "links_before 112 0 ex_parallel_interfaces = 0"
    "links_before 112 1 ex_parallel_interfaces = 1"
    by (simp_all add: ex_parallel_interfaces_def notion_defs)
  have len: "0 < length ex_parallel_interfaces" "1 < length ex_parallel_interfaces"
    by (simp_all add: ex_parallel_interfaces_def)
  from inst have par: "process_interfaces 110 ex_parallel_interfaces (Map.empty, ex_allocator_1)
            = Inr (ex_parallel_output, [(110, 112) \<mapsto> 2], ex_allocator_3) \<and>
          0 < length ex_parallel_interfaces \<and> 1 < length ex_parallel_interfaces \<and>
          link_peer (snd (ex_parallel_interfaces ! 0)) = Some 112 \<and>
          link_peer (snd (ex_parallel_interfaces ! 1)) = Some 112 \<and>
          links_before 112 0 ex_parallel_interfaces = 0 \<and>
          links_before 112 1 ex_parallel_interfaces = 1 \<longrightarrow>
          (\<exists>port1 port2. port1 \<noteq> port2 \<and>
             port_assignments ex_allocator_3 (min 110 112, max 110 112, 0) = Some port1 \<and>
             port_assignments ex_allocator_3 (min 110 112, max 110 112, 1) = Some port2 \<and>
             rewritten_with 110 112 port1 (snd (ex_parallel_interfaces ! 0))
               (snd (ex_parallel_output ! 0)) \<and>
             rewritten_with 110 112 port2 (snd (ex_parallel_interfaces ! 1))
               (snd (ex_parallel_output ! 1)))"
    by blast
  have a: "get_port ex_allocator_1 111 110 0 = (50000, ex_allocator_1)"
    using inst hit by blast
  have b: "fst (get_port ex_allocator_1 110 112 0) = 50001 \<and>
           next_port (snd (get_port ex_allocator_1 110 112 0)) = 50002"
    using inst miss np by simp
  show ?thesis
    using inst a b par ex_run_parallel ex_allocator_1_reachable peers ranks len np
    by simp
qed

text \<open>
  C9. An interface whose peer identifier is a string from which
  \<^verbatim>\<open>extract_node_from_isd_as\<close> reads no node number: the loop body returns the
  interface as it was, with the link counters and the allocator as they were (no port
  is requested) and without an exception; the loop over a list that holds such an
  interface processes the interfaces before and after it as if it were not there and
  puts it, unchanged, between their results; and in the descriptor that
  \<^verbatim>\<open>update_topology_json\<close> returns, the interface stands at its position unchanged,
  its underlay addresses included.
\<close>

theorem malformed_peer_left_alone:
  assumes "idata = PDict d" and "map_of d ''isd_as'' = Some (PStr s)"
    and "extract_node_from_isd_as (PStr s) = Inr None"
  shows "process_interface n idata (lc, pa) = Inr (idata, lc, pa) \<and>
         process_interfaces n (pre @ (iid, idata) # post) st =
           ebind (process_interfaces n pre st) (\<lambda>(pre', st1).
           ebind (process_interfaces n post st1) (\<lambda>(post', st2).
             Inr (pre' @ (iid, idata) # post', st2))) \<and>
         (\<forall>topo topo' pa0 pa1 j.
            update_topology_json topo n pa0 = Inr (topo', pa1) \<and>
            j < length (declared_interfaces topo) \<and> snd (declared_interfaces topo ! j) = idata \<longrightarrow>
            output_interfaces topo' ! j = declared_interfaces topo ! j)"
proof -
  have step: "\<And>st. process_interface n idata st = Inr (idata, st)"
    using assms by (rule malformed_step)
  have 1: "process_interface n idata (lc, pa) = Inr (idata, lc, pa)" by (rule step)
  have 2: "process_interfaces n (pre @ (iid, idata) # post) st =
           ebind (process_interfaces n pre st) (\<lambda>(pre', st1).
           ebind (process_interfaces n post st1) (\<lambda>(post', st2).
             Inr (pre' @ (iid, idata) # post', st2)))"
    by (simp add: process_interfaces_append step ebind_def split: sum.splits prod.splits)
  have lp: "link_peer idata = None"
    using assms by (simp add: link_peer_def)
  have 3: "\<forall>topo topo' pa0 pa1 j.
            update_topology_json topo n pa0 = Inr (topo', pa1) \<and>
            j < length (declared_interfaces topo) \<and> snd (declared_interfaces topo ! j) = idata \<longrightarrow>
            output_interfaces topo' ! j = declared_interfaces topo ! j"
  proof (intro allI impI)
    fix topo topo' pa0 pa1 j
    assume a: "update_topology_json topo n pa0 = Inr (topo', pa1) \<and>
            j < length (declared_interfaces topo) \<and> snd (declared_interfaces topo ! j) = idata"
    then have run: "update_topology_json topo n pa0 = Inr (topo', pa1)"
      and j: "j < length (declared_interfaces topo)"
      and e: "snd (declared_interfaces topo ! j) = idata" by simp_all
    have "declared_interfaces topo \<noteq> []" using j by auto
    then have "py_in ''border_routers'' topo = Inr True" by (rule declared_interfaces_nonempty)
    from update_topology_json_Inr [OF run this] obtain ifs' lc1 where
      pr: "process_interfaces n (declared_interfaces topo) (Map.empty, pa0) = Inr (ifs', lc1, pa1)"
      and out: "output_interfaces topo' = ifs'"
      by blast
    have v: "snd (ifs' ! j) = snd (declared_interfaces topo ! j)"
      using process_interfaces_nth [OF pr j] e lp by simp
    have "map fst ifs' = map fst (declared_interfaces topo)"
      using pr by (rule process_interfaces_keys)
    then have k: "fst (ifs' ! j) = fst (declared_interfaces topo ! j)"
      using j by (metis length_map nth_map)
    show "output_interfaces topo' ! j = declared_interfaces topo ! j"
      using v k out by (simp add: prod_eq_iff)
  qed
  from 1 2 3 show ?thesis by blast
qed

theorem malformed_peer_left_alone_witness:
  "extract_node_from_isd_as (PStr ''1-ff00:0:11x'') = Inr None \<and>
   process_interface 110 ex_malformed_interface (Map.empty, main_allocator)
     = Inr (ex_malformed_interface, Map.empty, main_allocator) \<and>
   process_interfaces 110 (take 1 ex_mixed_interfaces @ (''2'', ex_malformed_interface)
                             # drop 2 ex_mixed_interfaces) (Map.empty, main_allocator)
     = Inr (take 1 ex_mixed_output @ (''2'', ex_malformed_interface) # drop 2 ex_mixed_output,
            [(110, 111) \<mapsto> 2], ex_allocator_2) \<and>
   update_topology_json ex_mixed_topology 110 main_allocator
     = Inr (ex_mixed_topology_output, ex_allocator_2) \<and>
   output_interfaces ex_mixed_topology_output ! 1 = declared_interfaces ex_mixed_topology ! 1"
proof -
  have d: "ex_malformed_interface =
     PDict [(''isd_as'', PStr ''1-ff00:0:11x''),
            (''underlay'', PDict [(''local'', PStr ''127.0.0.6:50000''),
                                  (''remote'', PStr ''127.0.0.7:50000'')])]"
    by (simp add: ex_malformed_interface_def)
  have ia: "map_of [(''isd_as'', PStr ''1-ff00:0:11x''),
            (''underlay'', PDict [(''local'', PStr ''127.0.0.6:50000''),
                                  (''remote'', PStr ''127.0.0.7:50000'')])] ''isd_as''
              = Some (PStr ''1-ff00:0:11x'')"
    by simp
  have ex: "extract_node_from_isd_as (PStr ''1-ff00:0:11x'') = Inr None"
    by (simp add: search_suffix_number_def is_digit_def digit_chars_def)
  note inst = malformed_peer_left_alone [OF d ia ex, of 110]
  have pre: "process_interfaces 110 (take 1 ex_mixed_interfaces) (Map.empty, main_allocator)
               = Inr (take 1 ex_mixed_output, [(110, 111) \<mapsto> 1], ex_allocator_1)"
    by (simp add: ex_mixed_interfaces_def ex_mixed_output_def ex_allocator_1_def eval_defs)
  have post: "process_interfaces 110 (drop 2 ex_mixed_interfaces)
                 ([(110, 111) \<mapsto> 1], ex_allocator_1)
               = Inr (drop 2 ex_mixed_output, [(110, 111) \<mapsto> 2], ex_allocator_2)"
    by (simp add: ex_mixed_interfaces_def ex_mixed_output_def ex_allocator_1_def
        ex_allocator_2_def eval_defs)
  have j: "1 < length (declared_interfaces ex_mixed_topology)"
    by (simp add: ex_mixed_topology_def ex_mixed_interfaces_def notion_defs)
  have e: "snd (declared_interfaces ex_mixed_topology ! 1) = ex_malformed_interface"
    by (simp add: ex_mixed_topology_def ex_mixed_interfaces_def notion_defs)
  have 1: "process_interface 110 ex_malformed_interface (Map.empty, main_allocator)
     = Inr (ex_malformed_interface, Map.empty, main_allocator)"
    using inst by blast
  have 2: "process_interfaces 110 (take 1 ex_mixed_interfaces @ (''2'', ex_malformed_interface)
                             # drop 2 ex_mixed_interfaces) (Map.empty, main_allocator)
     = Inr (take 1 ex_mixed_output @ (''2'', ex_malformed_interface) # drop 2 ex_mixed_output,
            [(110, 111) \<mapsto> 2], ex_allocator_2)"
    using inst [of _ _ "take 1 ex_mixed_interfaces" "''2''" "drop 2 ex_mixed_interfaces"
        "(Map.empty, main_allocator)"] pre post
    by simp
  have 3: "output_interfaces ex_mixed_topology_output ! 1 = declared_interfaces ex_mixed_topology ! 1"
    using inst ex_run_mixed j e by blast
  show ?thesis using ex 1 2 3 ex_run_mixed by simp
qed

text \<open>
  C10, as stated, fails: the guard of line 282 comes before the peer is read, so an
  interface without an \<^verbatim>\<open>underlay\<close> entry is not counted although its peer identifier
  parses. Node 110 has the interfaces \<^verbatim>\<open>1\<close> and \<^verbatim>\<open>2\<close>, both with the peer
  \<^verbatim>\<open>1-ff00:0:111\<close>, the first without an underlay entry. When the loop reaches the
  second, the counters are empty and its link index is 0 (it gets the port 50000 of
  the key with ordinal 0), while one earlier interface has the same node pair and a
  peer identifier that parses.
\<close>

theorem link_ordinal_counterexample:
  "update_topology_json ex_bare_topology 110 main_allocator
     = Inr (ex_bare_topology_output, ex_allocator_1) \<and>
   declared_interfaces ex_bare_topology = ex_bare_interfaces \<and>
   process_interfaces 110 (take 1 ex_bare_interfaces) (Map.empty, main_allocator)
     = Inr (take 1 ex_bare_interfaces, Map.empty, main_allocator) \<and>
   has_underlay (snd (ex_bare_interfaces ! 1)) \<and>
   parsed_peer (snd (ex_bare_interfaces ! 1)) = Some 111 \<and>
   assign_link 110 111 Map.empty main_allocator
     = (0, 50000, [(110, 111) \<mapsto> 1], ex_allocator_1) \<and>
   length (filter (\<lambda>x. peer_in_pair 110 (min 110 111, max 110 111) (snd x))
             (take 1 ex_bare_interfaces)) = 1"
proof -
  have d: "declared_interfaces ex_bare_topology = ex_bare_interfaces"
    by (simp add: ex_bare_topology_def ex_bare_interfaces_def notion_defs)
  have u: "has_underlay (snd (ex_bare_interfaces ! 1))"
    by (simp add: ex_bare_interfaces_def has_underlay_def)
  have p: "parsed_peer (snd (ex_bare_interfaces ! 1)) = Some 111"
    by (simp add: ex_bare_interfaces_def parsed_peer_def notion_defs)
  have al: "assign_link 110 111 Map.empty main_allocator
              = (0, 50000, [(110, 111) \<mapsto> 1], ex_allocator_1)"
    by (simp add: ex_allocator_1_def eval_defs)
  have c: "length (filter (\<lambda>x. peer_in_pair 110 (min 110 111, max 110 111) (snd x))
             (take 1 ex_bare_interfaces)) = 1"
    by (simp add: ex_bare_interfaces_def peer_in_pair_def parsed_peer_def notion_defs)
  show ?thesis using ex_run_bare d ex_run_bare_prefix u p al c by simp
qed

text \<open>
  C10, amended. When the second loop has processed the first \<open>j\<close> interfaces and the
  next one has an underlay entry and a peer identifier that parses to \<open>r\<close>, the link
  index that lines 293 to 302 give it is the number of earlier interfaces that have an
  underlay entry and a peer identifier that parses and gives the same unordered node
  pair. An interface whose peer identifier does not parse, or that has no underlay
  entry, leaves the counters (and everything else) as they were, so it never shifts
  the link index of a later interface.
\<close>

theorem link_ordinal_counts_earlier_links:
  assumes "process_interfaces n (take j ifs) (Map.empty, pa) = Inr (pre', lc, pa1)"
    and "j < length ifs"
    and "has_underlay (snd (ifs ! j))" and "parsed_peer (snd (ifs ! j)) = Some r"
    and "assign_link n r lc pa1 = (link_index, port, lc', pa')"
  shows "link_index
           = int (length (filter (\<lambda>x. has_underlay (snd x) \<and>
                                       peer_in_pair n (min n r, max n r) (snd x))
                            (take j ifs))) \<and>
         (\<forall>idata st idata' st'.
            process_interface n idata st = Inr (idata', st') \<and>
            (parsed_peer idata = None \<or> \<not> has_underlay idata) \<longrightarrow>
            idata' = idata \<and> st' = st)"
proof -
  have len: "length (take j ifs) = j" using assms(2) by simp
  have "links_before r j (take j ifs) = links_before r j ifs"
    by (simp add: links_before_def)
  then have c: "get_default lc (min n r, max n r) 0 = int (links_before r j ifs)"
    using process_interfaces_counters [OF assms(1), of r] len by (simp add: get_default_def)
  have i: "link_index = get_default lc (min n r, max n r) 0"
    using assms(5) by (rule assign_link_eq)
  have 1: "link_index
           = int (length (filter (\<lambda>x. has_underlay (snd x) \<and>
                                       peer_in_pair n (min n r, max n r) (snd x))
                            (take j ifs)))"
    using i c links_before_underlay [of r j ifs n] by simp
  have 2: "\<forall>idata st idata' st'.
            process_interface n idata st = Inr (idata', st') \<and>
            (parsed_peer idata = None \<or> \<not> has_underlay idata) \<longrightarrow>
            idata' = idata \<and> st' = st"
  proof (intro allI impI)
    fix idata st idata' st'
    assume a: "process_interface n idata st = Inr (idata', st') \<and>
            (parsed_peer idata = None \<or> \<not> has_underlay idata)"
    obtain lc0 pa0 where st: "st = (lc0, pa0)" by (cases st)
    obtain lc1 pa1 where st': "st' = (lc1, pa1)" by (cases st')
    have "link_peer idata = None" using a by (auto simp: link_peer_None_iff)
    then show "idata' = idata \<and> st' = st"
      using process_interface_Inr [of n idata lc0 pa0 idata' lc1 pa1] a st st' by simp
  qed
  from 1 2 show ?thesis by blast
qed

theorem link_ordinal_counts_earlier_links_witness:
  "process_interfaces 110 (take 3 ex_ordinal_interfaces) (Map.empty, main_allocator)
     = Inr (ex_ordinal_prefix_output, [(110, 111) \<mapsto> 1], ex_allocator_1) \<and>
   has_underlay (snd (ex_ordinal_interfaces ! 3)) \<and>
   parsed_peer (snd (ex_ordinal_interfaces ! 3)) = Some 111 \<and>
   \<not> has_underlay (snd (ex_ordinal_interfaces ! 1)) \<and>
   parsed_peer (snd (ex_ordinal_interfaces ! 1)) = Some 111 \<and>
   parsed_peer (snd (ex_ordinal_interfaces ! 2)) = None \<and>
   assign_link 110 111 [(110, 111) \<mapsto> 1] ex_allocator_1
     = (1, 50001, [(110, 111) \<mapsto> 2], ex_allocator_2) \<and>
   (1::int) = int (length (filter (\<lambda>x. has_underlay (snd x) \<and>
                                        peer_in_pair 110 (min 110 111, max 110 111) (snd x))
                             (take 3 ex_ordinal_interfaces)))"
proof -
  have j: "3 < length ex_ordinal_interfaces" by (simp add: ex_ordinal_interfaces_def)
  have u: "has_underlay (snd (ex_ordinal_interfaces ! 3))"
    by (simp add: ex_ordinal_interfaces_def has_underlay_def)
  have p: "parsed_peer (snd (ex_ordinal_interfaces ! 3)) = Some 111"
    by (simp add: ex_ordinal_interfaces_def parsed_peer_def notion_defs)
  have bare: "\<not> has_underlay (snd (ex_ordinal_interfaces ! 1))"
    "parsed_peer (snd (ex_ordinal_interfaces ! 1)) = Some 111"
    by (simp_all add: ex_ordinal_interfaces_def has_underlay_def parsed_peer_def notion_defs)
  have mal: "parsed_peer (snd (ex_ordinal_interfaces ! 2)) = None"
    by (simp add: ex_ordinal_interfaces_def ex_malformed_interface_def parsed_peer_def
        notion_defs)
  have al: "assign_link 110 111 [(110, 111) \<mapsto> 1] ex_allocator_1
              = (1, 50001, [(110, 111) \<mapsto> 2], ex_allocator_2)"
    by (simp add: ex_allocator_1_def ex_allocator_2_def eval_defs)
  show ?thesis
    using link_ordinal_counts_earlier_links [OF ex_run_ordinal_prefix j u p al]
      ex_run_ordinal_prefix u p bare mal al
    by simp
qed

text \<open>
  C5, as stated, fails: \<^verbatim>\<open>update_br_toml\<close> deletes only the \<^verbatim>\<open>metrics\<close> section, so a
  tracing section of a border-router configuration is still there afterwards, and
  \<^verbatim>\<open>update_topology_json\<close> deletes only \<^verbatim>\<open>test_dispatcher\<close>, so a \<^verbatim>\<open>metrics\<close> key of a
  descriptor is still there.
\<close>

theorem sections_removed_counterexample:
  "update_br_toml ex_br_config 110 = Inr ex_br_output \<and>
   py_in ''tracing'' ex_br_output = Inr True \<and>
   update_topology_json ex_marked_topology 110 main_allocator
     = Inr (ex_marked_topology_output, main_allocator) \<and>
   py_in ''metrics'' ex_marked_topology_output = Inr True"
  using ex_run_br ex_run_marked
  by (simp add: ex_br_output_def ex_marked_topology_output_def)

text \<open>
  C5, amended. Whenever the rewrite of a file returns: the border-router
  configuration has no \<^verbatim>\<open>metrics\<close> section; the control-service configuration and the
  daemon configuration have neither a \<^verbatim>\<open>metrics\<close> nor a \<^verbatim>\<open>tracing\<close> section; the
  topology descriptor has no \<^verbatim>\<open>test_dispatcher\<close> key; whatever the input had.
\<close>

theorem sections_removed:
  "(update_br_toml config n = Inr br' \<longrightarrow> py_in ''metrics'' br' = Inr False) \<and>
   (update_cs_toml config n = Inr cs' \<longrightarrow>
      py_in ''metrics'' cs' = Inr False \<and> py_in ''tracing'' cs' = Inr False) \<and>
   (update_sd_toml config n = Inr sd' \<longrightarrow>
      py_in ''metrics'' sd' = Inr False \<and> py_in ''tracing'' sd' = Inr False) \<and>
   (update_topology_json topology n pa = Inr (topology', pa') \<longrightarrow>
      py_in ''test_dispatcher'' topology' = Inr False)"
  using update_br_toml_Inr(1) update_cs_toml_Inr(1,2) update_sd_toml_Inr(1,2)
    update_topology_json_marker
  by blast

theorem sections_removed_witness:
  "update_br_toml ex_br_config 110 = Inr ex_br_output \<and>
   py_in ''metrics'' ex_br_config = Inr True \<and>
   py_in ''metrics'' ex_br_output = Inr False \<and>
   update_cs_toml ex_cs_config 110 = Inr ex_cs_output \<and>
   py_in ''metrics'' ex_cs_config = Inr True \<and> py_in ''tracing'' ex_cs_config = Inr True \<and>
   py_in ''metrics'' ex_cs_output = Inr False \<and> py_in ''tracing'' ex_cs_output = Inr False \<and>
   update_sd_toml ex_sd_config 110 = Inr ex_sd_output \<and>
   py_in ''metrics'' ex_sd_config = Inr True \<and> py_in ''tracing'' ex_sd_config = Inr True \<and>
   py_in ''metrics'' ex_sd_output = Inr False \<and> py_in ''tracing'' ex_sd_output = Inr False \<and>
   update_topology_json ex_marked_topology 110 main_allocator
     = Inr (ex_marked_topology_output, main_allocator) \<and>
   py_in ''test_dispatcher'' ex_marked_topology = Inr True \<and>
   py_in ''test_dispatcher'' ex_marked_topology_output = Inr False"
proof -
  have inputs: "py_in ''metrics'' ex_br_config = Inr True"
    "py_in ''metrics'' ex_cs_config = Inr True" "py_in ''tracing'' ex_cs_config = Inr True"
    "py_in ''metrics'' ex_sd_config = Inr True" "py_in ''tracing'' ex_sd_config = Inr True"
    "py_in ''test_dispatcher'' ex_marked_topology = Inr True"
    by (simp_all add: ex_br_config_def ex_cs_config_def ex_sd_config_def ex_marked_topology_def)
  have br: "py_in ''metrics'' ex_br_output = Inr False"
    using sections_removed [of ex_br_config 110 ex_br_output] ex_run_br by blast
  have cs: "py_in ''metrics'' ex_cs_output = Inr False \<and> py_in ''tracing'' ex_cs_output = Inr False"
    using sections_removed [of ex_cs_config 110 _ ex_cs_output] ex_run_cs by blast
  have sd: "py_in ''metrics'' ex_sd_output = Inr False \<and> py_in ''tracing'' ex_sd_output = Inr False"
    using sections_removed [of ex_sd_config 110 _ _ ex_sd_output] ex_run_sd by blast
  have tp: "py_in ''test_dispatcher'' ex_marked_topology_output = Inr False"
    using sections_removed [of _ 110 _ _ _ ex_marked_topology main_allocator
        ex_marked_topology_output main_allocator] ex_run_marked by blast
  show ?thesis using inputs br cs sd tp ex_run_br ex_run_cs ex_run_sd ex_run_marked by simp
qed

text \<open>
  C6, as stated, fails: the port of the input address is not read. The generated
  border-router configuration of the example has the API address
  \<^verbatim>\<open>127.0.0.9:30742\<close>; the rewritten one has \<^verbatim>\<open>10.0.0.110:31442\<close>.
\<close>

theorem api_port_preserved_counterexample:
  "config_value ''api'' ''addr'' ex_br_config = Some (PStr ''127.0.0.9:30742'') \<and>
   update_br_toml ex_br_config 110 = Inr ex_br_output \<and>
   config_value ''api'' ''addr'' ex_br_output = Some (PStr ''10.0.0.110:31442'') \<and>
   config_value ''api'' ''addr'' ex_br_output \<noteq> Some (PStr ''10.0.0.110:30742'')"
  using ex_run_br by (simp add: ex_br_config_def ex_br_output_def config_value_def)

text \<open>
  C6, amended. Whenever the rewrite of a configuration that has an \<^verbatim>\<open>api\<close> section
  returns, the API address is the node's mapped host \<open>10.0.0.n\<close> with a port fixed per
  kind of service: 31442 for the border router, 31152 for the control service, 30955
  for the daemon; and the daemon's own address (section \<^verbatim>\<open>sd\<close>) is \<open>10.0.0.n:30255\<close>.
\<close>

theorem api_address_rewritten:
  "(update_br_toml config n = Inr br' \<and> py_in ''api'' config = Inr True \<longrightarrow>
      config_value ''api'' ''addr'' br' = Some (PStr (''10.0.0.'' @ str_int n @ '':31442''))) \<and>
   (update_cs_toml config n = Inr cs' \<and> py_in ''api'' config = Inr True \<longrightarrow>
      config_value ''api'' ''addr'' cs' = Some (PStr (''10.0.0.'' @ str_int n @ '':31152''))) \<and>
   (update_sd_toml config n = Inr sd' \<and> py_in ''api'' config = Inr True \<longrightarrow>
      config_value ''api'' ''addr'' sd' = Some (PStr (''10.0.0.'' @ str_int n @ '':30955''))) \<and>
   (update_sd_toml config n = Inr sd' \<and> py_in ''sd'' config = Inr True \<longrightarrow>
      config_value ''sd'' ''address'' sd' = Some (PStr (''10.0.0.'' @ str_int n @ '':30255'')))"
  using update_br_toml_Inr(2) update_cs_toml_Inr(3) update_sd_toml_Inr(3,4)
  by blast

theorem api_address_rewritten_witness:
  "update_br_toml ex_br_config 110 = Inr ex_br_output \<and>
   py_in ''api'' ex_br_config = Inr True \<and>
   config_value ''api'' ''addr'' ex_br_output = Some (PStr (''10.0.0.'' @ str_int 110 @ '':31442'')) \<and>
   update_cs_toml ex_cs_config 110 = Inr ex_cs_output \<and>
   py_in ''api'' ex_cs_config = Inr True \<and>
   config_value ''api'' ''addr'' ex_cs_output = Some (PStr (''10.0.0.'' @ str_int 110 @ '':31152'')) \<and>
   update_sd_toml ex_sd_config 110 = Inr ex_sd_output \<and>
   py_in ''api'' ex_sd_config = Inr True \<and> py_in ''sd'' ex_sd_config = Inr True \<and>
   config_value ''api'' ''addr'' ex_sd_output = Some (PStr (''10.0.0.'' @ str_int 110 @ '':30955'')) \<and>
   config_value ''sd'' ''address'' ex_sd_output = Some (PStr (''10.0.0.'' @ str_int 110 @ '':30255''))"
proof -
  have inputs: "py_in ''api'' ex_br_config = Inr True" "py_in ''api'' ex_cs_config = Inr True"
    "py_in ''api'' ex_sd_config = Inr True" "py_in ''sd'' ex_sd_config = Inr True"
    by (simp_all add: ex_br_config_def ex_cs_config_def ex_sd_config_def)
  have br: "config_value ''api'' ''addr'' ex_br_output
              = Some (PStr (''10.0.0.'' @ str_int 110 @ '':31442''))"
    using api_address_rewritten [of ex_br_config 110 ex_br_output] ex_run_br inputs by blast
  have cs: "config_value ''api'' ''addr'' ex_cs_output
              = Some (PStr (''10.0.0.'' @ str_int 110 @ '':31152''))"
    using api_address_rewritten [of ex_cs_config 110 _ ex_cs_output] ex_run_cs inputs by blast
  have sd: "config_value ''api'' ''addr'' ex_sd_output
              = Some (PStr (''10.0.0.'' @ str_int 110 @ '':30955'')) \<and>
            config_value ''sd'' ''address'' ex_sd_output
              = Some (PStr (''10.0.0.'' @ str_int 110 @ '':30255''))"
    using api_address_rewritten [of ex_sd_config 110 _ _ ex_sd_output] ex_run_sd inputs by blast
  show ?thesis using inputs br cs sd ex_run_br ex_run_cs ex_run_sd by blast
qed

text \<open>
  C7. The claim is what the code announces and not what it does. The comment of
  lines 242 and 251 says \<^verbatim>\<open># Extract port from existing address\<close>; the code takes
  \<^verbatim>\<open>addr.split(':')[1]\<close>, the text between the first and the second colon. For an
  address with one colon that is the port (\<open>service_addresses_rewritten\<close>). For the
  IPv6 address \<^verbatim>\<open>[fd00:f00d:cafe::7f00:14]:31000\<close> it is \<^verbatim>\<open>f00d\<close>: the control-service
  entry of node 110 gets the address \<^verbatim>\<open>10.0.0.110:f00d\<close>, where the claim and the
  comment give \<^verbatim>\<open>10.0.0.110:31000\<close>. The theorem evaluates the code at this input.
\<close>

theorem service_port_lost_on_ipv6:
  "update_topology_json ex_ipv6_service_topology 110 main_allocator
     = Inr (ex_ipv6_service_output, main_allocator) \<and>
   py_getitem ex_ipv6_service_topology ''control_service''
     = Inr (PDict [(''cs1'', PDict [(''addr'', PStr ''[fd00:f00d:cafe::7f00:14]:31000'')])]) \<and>
   py_getitem ex_ipv6_service_output ''control_service''
     = Inr (PDict [(''cs1'', PDict [(''addr'', PStr ''10.0.0.110:f00d'')])])"
  using ex_run_ipv6_service
  by (simp add: ex_ipv6_service_topology_def ex_ipv6_service_output_def)

text \<open>
  C4. The consolidation is as the claim says (\<open>border_routers_consolidated\<close>): one
  entry \<^verbatim>\<open>br\<close>, the union of the interface tables with the last occurrence of an id
  winning, the sum of the counts when no id occurs twice. The internal address is
  not: the comment of line 269 says \<^verbatim>\<open># Extract port from existing address\<close>, and
  the code takes \<^verbatim>\<open>internal_addr.split(':')[1]\<close>, the text between the first and the
  second colon. For the IPv6 internal address \<^verbatim>\<open>[fd00:f00d:cafe::7f00:9]:31002\<close> of a
  border router of node 110 the consolidated address is \<^verbatim>\<open>10.0.0.110:f00d\<close>, where the
  claim and the comment give the port 31002. The theorem evaluates the code at this
  input.
\<close>

theorem internal_port_lost_on_ipv6:
  "update_topology_json ex_ipv6_router_topology 110 main_allocator
     = Inr (ex_ipv6_router_output, main_allocator) \<and>
   border_router_entries ex_ipv6_router_topology
     = [(''br1'', PDict [(''internal_addr'', PStr ''[fd00:f00d:cafe::7f00:9]:31002''),
                         (''interfaces'', PDict [])])] \<and>
   border_router_entries ex_ipv6_router_output
     = [(''br'', PDict [(''internal_addr'', PStr ''10.0.0.110:f00d''),
                        (''interfaces'', PDict [])])]"
  using ex_run_ipv6_router
  by (simp add: ex_ipv6_router_topology_def ex_ipv6_router_output_def border_router_entries_def)

text \<open>
  C8. The node mapping depends only on the set of entries of the source directory,
  not on the order in which the file system lists them. Its keys are exactly the
  names of the directories whose name starts with \<^verbatim>\<open>AS\<close> and ends in an underscore
  and digits: every other entry is left out, and the function has no failing case.
  When the names of the listing are distinct, as those of a directory are, the
  mapping lists the nodes by ascending number (and by name where numbers are equal),
  each name with \<^verbatim>\<open>as_\<close> and its number. The witness has the listing 110, 112, 111 of
  the specification, mapped in the order 110, 111, 112.
\<close>

theorem node_mapping_sorted:
  "(distinct xs \<and> distinct ys \<and> set xs = set ys \<longrightarrow>
      build_as_to_node_mapping xs = build_as_to_node_mapping ys) \<and>
   fst ` set (build_as_to_node_mapping entries) =
     {name. (name, True) \<in> set entries \<and> starts_with ''AS'' name \<and>
            extract_as_number name \<noteq> None} \<and>
   (distinct (map fst entries) \<longrightarrow>
      (\<exists>ps. sorted ps \<and> sorted (map fst ps) \<and>
         (\<forall>p\<in>set ps. extract_as_number (snd p) = Some (fst p)) \<and>
         build_as_to_node_mapping entries = map (\<lambda>p. (snd p, ''as_'' @ str_int (fst p))) ps))"
proof -
  have 1: "distinct xs \<and> distinct ys \<and> set xs = set ys \<longrightarrow>
      build_as_to_node_mapping xs = build_as_to_node_mapping ys"
    using build_perm [of xs ys] by (auto simp: set_eq_iff_mset_eq_distinct)
  have 3: "distinct (map fst entries) \<longrightarrow>
      (\<exists>ps. sorted ps \<and> sorted (map fst ps) \<and>
         (\<forall>p\<in>set ps. extract_as_number (snd p) = Some (fst p)) \<and>
         build_as_to_node_mapping entries = map (\<lambda>p. (snd p, ''as_'' @ str_int (fst p))) ps)"
  proof
    assume d: "distinct (map fst entries)"
    let ?ps = "sort (as_pairs entries)"
    have "mset (map snd ?ps) = mset (map snd (as_pairs entries))" by simp
    then have "distinct (map snd ?ps)"
      using distinct_as_pairs_names [OF d] by (metis mset_eq_imp_distinct_iff)
    then have b: "build_as_to_node_mapping entries
                    = map (\<lambda>p. (snd p, ''as_'' @ str_int (fst p))) ?ps"
      using foldl_update_fresh [of ?ps "[]" "\<lambda>num. ''as_'' @ str_int num"]
      by (simp add: build_as_pairs)
    have s: "sorted ?ps" by simp
    have e: "\<forall>p\<in>set ?ps. extract_as_number (snd p) = Some (fst p)"
      by (auto simp: set_as_pairs)
    show "\<exists>ps. sorted ps \<and> sorted (map fst ps) \<and>
         (\<forall>p\<in>set ps. extract_as_number (snd p) = Some (fst p)) \<and>
         build_as_to_node_mapping entries = map (\<lambda>p. (snd p, ''as_'' @ str_int (fst p))) ps"
      using s sorted_fst [OF s] e b by blast
  qed
  from 1 build_keys [of entries] 3 show ?thesis by blast
qed

theorem node_mapping_sorted_witness:
  "distinct ex_listing \<and> distinct (rev ex_listing) \<and> set ex_listing = set (rev ex_listing) \<and>
   build_as_to_node_mapping ex_listing = build_as_to_node_mapping (rev ex_listing) \<and>
   build_as_to_node_mapping ex_listing
     = [(''ASff00_0_110'', ''as_110''), (''ASff00_0_111'', ''as_111''),
        (''ASff00_0_112'', ''as_112'')] \<and>
   ''ISD1'' \<notin> fst ` set (build_as_to_node_mapping ex_listing) \<and>
   ''ASkeys'' \<notin> fst ` set (build_as_to_node_mapping ex_listing) \<and>
   ''ASff00_0_113'' \<notin> fst ` set (build_as_to_node_mapping ex_listing) \<and>
   distinct (map fst ex_listing) \<and>
   (\<exists>ps. sorted ps \<and> sorted (map fst ps) \<and>
      build_as_to_node_mapping ex_listing = map (\<lambda>p. (snd p, ''as_'' @ str_int (fst p))) ps)"
proof -
  note inst = node_mapping_sorted [of ex_listing "rev ex_listing" ex_listing]
  have d: "distinct ex_listing" "distinct (map fst ex_listing)"
    by (simp_all add: ex_listing_def)
  have 1: "build_as_to_node_mapping ex_listing = build_as_to_node_mapping (rev ex_listing)"
    using inst d by simp
  have keys: "fst ` set (build_as_to_node_mapping ex_listing) =
     {name. (name, True) \<in> set ex_listing \<and> starts_with ''AS'' name \<and>
            extract_as_number name \<noteq> None}"
    using inst by blast
  have 2: "''ISD1'' \<notin> fst ` set (build_as_to_node_mapping ex_listing)"
    unfolding keys by simp
  have 3: "''ASkeys'' \<notin> fst ` set (build_as_to_node_mapping ex_listing)"
    unfolding keys
    by (simp add: extract_as_number_def search_suffix_number_def is_digit_def digit_chars_def)
  have 4: "''ASff00_0_113'' \<notin> fst ` set (build_as_to_node_mapping ex_listing)"
    unfolding keys by (simp add: ex_listing_def)
  have 5: "\<exists>ps. sorted ps \<and> sorted (map fst ps) \<and>
      build_as_to_node_mapping ex_listing = map (\<lambda>p. (snd p, ''as_'' @ str_int (fst p))) ps"
    using inst d by blast
  show ?thesis using d 1 2 3 4 5 ex_build_listing by simp
qed

end
